theory Spec2Isabelle
  imports Main
begin

section \<open>Static configuration of pkgmanager (cli.py)\<close>

text \<open>
  Python dictionaries keep insertion order, so a dictionary is an association list with
  distinct keys: \<open>dict_get\<close> is \<open>d.get(k)\<close>, \<open>dict_has\<close> is \<open>k in d\<close> and
  \<open>dict_set\<close> is \<open>d[k] = v\<close> (an existing key keeps its position, a new key goes to
  the end).
\<close>

type_synonym ('k, 'v) dict = "('k \<times> 'v) list"

definition dict_get :: "('k, 'v) dict \<Rightarrow> 'k \<Rightarrow> 'v option" where
  "dict_get d k = map_of d k"

definition dict_has :: "('k, 'v) dict \<Rightarrow> 'k \<Rightarrow> bool" where
  "dict_has d k = (k \<in> set (map fst d))"

fun dict_set :: "'k \<Rightarrow> 'v \<Rightarrow> ('k, 'v) dict \<Rightarrow> ('k, 'v) dict" where
  "dict_set k v [] = [(k, v)]"
| "dict_set k v (p # ps) = (if fst p = k then (k, v) # ps else p # dict_set k v ps)"

text \<open>
  \<open>MANAGERS\<close>: the registry, from backend identifier to the manager instance. Of a manager
  the model keeps its class and the \<open>name\<close> and \<open>tool\<close> class attributes; the methods
  are functions of the manager further down.
\<close>

datatype manager_class =
  CondaManager | PythonManager | RustManager | BrewManager | CaskManager | MasManager
  | WingetManager | BunManager

record manager =
  mgr_class :: manager_class
  mgr_name :: string
  mgr_tool :: string

definition MANAGERS :: "(string, manager) dict" where
  "MANAGERS =
    [(''conda'', \<lparr>mgr_class = CondaManager, mgr_name = ''conda'', mgr_tool = ''micromamba''\<rparr>),
     (''python'', \<lparr>mgr_class = PythonManager, mgr_name = ''python'', mgr_tool = ''uv''\<rparr>),
     (''rust'', \<lparr>mgr_class = RustManager, mgr_name = ''rust'', mgr_tool = ''cargo''\<rparr>),
     (''brew'', \<lparr>mgr_class = BrewManager, mgr_name = ''brew'', mgr_tool = ''brew''\<rparr>),
     (''cask'', \<lparr>mgr_class = CaskManager, mgr_name = ''cask'', mgr_tool = ''brew''\<rparr>),
     (''mas'', \<lparr>mgr_class = MasManager, mgr_name = ''mas'', mgr_tool = ''mas''\<rparr>),
     (''winget'', \<lparr>mgr_class = WingetManager, mgr_name = ''winget'', mgr_tool = ''winget.exe''\<rparr>),
     (''bun'', \<lparr>mgr_class = BunManager, mgr_name = ''bun'', mgr_tool = ''bun''\<rparr>)]"

definition MANAGER_ORDER :: "string list" where
  "MANAGER_ORDER =
    [''brew'', ''cask'', ''mas'', ''winget'', ''conda'', ''python'', ''rust'', ''bun'', ''custom'']"

record category =
  cat_title :: string
  cat_types :: "string list"
  cat_platform :: "string option"

definition CATEGORIES :: "(string, category) dict" where
  "CATEGORIES =
    [(''mac'',     \<lparr>cat_title = ''macOS'',   cat_types = [''brew'', ''cask'', ''mas''],
                    cat_platform = Some ''darwin''\<rparr>),
     (''wsl'',     \<lparr>cat_title = ''WSL'',     cat_types = [''winget''],
                    cat_platform = Some ''wsl''\<rparr>),
     (''general'', \<lparr>cat_title = ''General'', cat_types = [''conda'', ''python'', ''rust'', ''bun''],
                    cat_platform = None\<rparr>),
     (''custom'',  \<lparr>cat_title = ''Custom'',  cat_types = [''custom''],
                    cat_platform = None\<rparr>)]"

definition CATEGORY_ORDER :: "string list" where
  "CATEGORY_ORDER = [''mac'', ''wsl'', ''general'', ''custom'']"

text \<open>\<open>CATEGORIES[cat_name]["types"]\<close>; every name the code indexes with is a key.\<close>

definition types_of_category :: "string \<Rightarrow> string list" where
  "types_of_category cat_name =
     (case dict_get CATEGORIES cat_name of Some cat \<Rightarrow> cat_types cat | None \<Rightarrow> [])"

section \<open>The host: platform, PATH and external processes\<close>

text \<open>
  Everything the program reads from or does to the machine goes through a \<open>host\<close>. The
  machine's state is an abstract \<open>'w\<close>; running a process may change it.
  \<^item> \<open>sys_platform\<close> is \<open>sys.platform\<close>, \<open>wsl_distro_name\<close> is
    \<open>os.environ.get("WSL_DISTRO_NAME")\<close>, \<open>proc_version\<close> the content of /proc/version
    (\<open>None\<close> when opening it raises OSError);
  \<^item> \<open>which w tool\<close> is \<open>shutil.which(tool) is not None\<close>;
  \<^item> \<open>detect_shell w\<close> is \<open>_detect_shell()\<close>;
  \<^item> \<open>spawn w argv\<close> is \<open>subprocess.run(argv)\<close> where a command, a script or a check is
    run: the return code and the machine afterwards;
  \<^item> \<open>installed_packages w name\<close> is \<open>MANAGERS[name].get_installed_packages()\<close>, whose
    parsing of tool output is outside this development.
  The two queries \<open>detect_shell\<close> and \<open>installed_packages\<close> start helper processes of
  their own (\<open>ps\<close>, the tool's list command); these stay inside the host and are read
  as observations of the machine;
  \<^item> \<open>load_specs\<close> is \<open>_load_specs()\<close>, the bundled catalogue of custom packages.
\<close>

record PackageInfo =
  pi_name :: string
  pi_version :: string
  pi_display_name :: string

record spec_fields =
  sf_install :: "string option"
  sf_check :: "string option"
  sf_remove :: "string option"
  sf_shell :: "string option"
  sf_depends :: "string list option"
  sf_description :: "string option"

datatype spec = SpecStr string | SpecDict spec_fields

record 'w host =
  sys_platform :: string
  wsl_distro_name :: "string option"
  proc_version :: "string option"
  which :: "'w \<Rightarrow> string \<Rightarrow> bool"
  detect_shell :: "'w \<Rightarrow> string"
  spawn :: "'w \<Rightarrow> string list \<Rightarrow> int \<times> 'w"
  installed_packages :: "'w \<Rightarrow> string \<Rightarrow> PackageInfo list"
  load_specs :: "(string, spec) dict"

text \<open>\<open>str.lower()\<close> on ASCII letters (a \<open>char\<close> is a byte).\<close>

definition lower_char :: "char \<Rightarrow> char" where
  "lower_char c =
     (let n = (of_char c :: nat) in if 65 \<le> n \<and> n \<le> 90 then char_of (n + 32) else c)"

definition lower :: "string \<Rightarrow> string" where
  "lower s = map lower_char s"

text \<open>\<open>sub in s\<close> for strings.\<close>

fun is_prefix :: "string \<Rightarrow> string \<Rightarrow> bool" where
  "is_prefix [] s = True"
| "is_prefix (a # as) [] = False"
| "is_prefix (a # as) (b # bs) = (a = b \<and> is_prefix as bs)"

fun str_contains :: "string \<Rightarrow> string \<Rightarrow> bool" where
  "str_contains sub [] = (sub = [])"
| "str_contains sub (c # cs) = (is_prefix sub (c # cs) \<or> str_contains sub cs)"

definition is_macos :: "'w host \<Rightarrow> bool" where
  "is_macos h = (sys_platform h = ''darwin'')"

definition is_wsl :: "'w host \<Rightarrow> bool" where
  "is_wsl h =
     (if sys_platform h \<noteq> ''linux'' then False
      else if (case wsl_distro_name h of Some v \<Rightarrow> v \<noteq> [] | None \<Rightarrow> False) then True
      else (case proc_version h of
              Some txt \<Rightarrow> str_contains ''microsoft'' (lower txt)
            | None \<Rightarrow> False))"

definition category_active :: "'w host \<Rightarrow> category \<Rightarrow> bool" where
  "category_active h cat =
     (case cat_platform cat of
        None \<Rightarrow> True
      | Some p \<Rightarrow> (if p = ''wsl'' \<and> is_wsl h then True else p = sys_platform h))"

definition get_active_categories :: "'w host \<Rightarrow> string list" where
  "get_active_categories h =
     filter (\<lambda>cat_name. case dict_get CATEGORIES cat_name of
                           Some cat \<Rightarrow> category_active h cat
                         | None \<Rightarrow> False)
            CATEGORY_ORDER"

fun get_category_for_type_in :: "(string, category) dict \<Rightarrow> string \<Rightarrow> string option" where
  "get_category_for_type_in [] pkg_type = None"
| "get_category_for_type_in ((cat_name, cat) # rest) pkg_type =
     (if pkg_type \<in> set (cat_types cat) then Some cat_name
      else get_category_for_type_in rest pkg_type)"

definition get_category_for_type :: "string \<Rightarrow> string option" where
  "get_category_for_type pkg_type = get_category_for_type_in CATEGORIES pkg_type"

text \<open>\<open>PackageManager.is_available\<close> of the manager registered under an identifier.\<close>

definition is_available :: "'w host \<Rightarrow> 'w \<Rightarrow> manager \<Rightarrow> bool" where
  "is_available h w m = which h w (mgr_tool m)"

section \<open>Entries and the resolver\<close>

text \<open>
  \<open>_parse_package_entry\<close>: \<open>entry.split(':', 1)\<close> cuts at the first colon; an entry
  without a colon has no preferred manager.
\<close>

definition parse_package_entry :: "string \<Rightarrow> string \<times> string option" where
  "parse_package_entry entry =
     (if CHR '':'' \<in> set entry
      then (takeWhile (\<lambda>c. c \<noteq> CHR '':'') entry,
            Some (tl (dropWhile (\<lambda>c. c \<noteq> CHR '':'') entry)))
      else (entry, None))"

text \<open>
  \<open>_resolve_package_manager\<close>. The loop over the active categories returns at the first
  category that lists the preferred type; \<open>if preferred_type:\<close> is false for \<open>None\<close> and
  for the empty string.
\<close>

fun resolve_scan :: "string list \<Rightarrow> string \<Rightarrow> string \<Rightarrow> string" where
  "resolve_scan [] preferred_type default_type = default_type"
| "resolve_scan (cat_name # rest) preferred_type default_type =
     (if preferred_type \<in> set (types_of_category cat_name) then preferred_type
      else resolve_scan rest preferred_type default_type)"

definition resolve_package_manager ::
  "'w host \<Rightarrow> 'w \<Rightarrow> string \<Rightarrow> string \<Rightarrow> string option \<Rightarrow> string" where
  "resolve_package_manager h w pkg_name default_type preferred_type =
     (case preferred_type of
        None \<Rightarrow> default_type
      | Some p \<Rightarrow>
          if p = [] then default_type
          else (case dict_get MANAGERS p of
                  None \<Rightarrow> default_type
                | Some m \<Rightarrow>
                    if is_available h w m
                    then resolve_scan (get_active_categories h) p default_type
                    else default_type))"

text \<open>
  \<open>_resolve_all_packages\<close>: the outer loop over the flattened sections, the inner loop
  over one section's entries; \<open>resolved\<close> is the dictionary being filled.
\<close>

fun resolve_entries ::
  "'w host \<Rightarrow> 'w \<Rightarrow> string \<Rightarrow> string list \<Rightarrow> (string, string list) dict
     \<Rightarrow> (string, string list) dict" where
  "resolve_entries h w default_type [] resolved = resolved"
| "resolve_entries h w default_type (entry # rest) resolved =
     (let (name, preferred) = parse_package_entry entry;
          actual_type = resolve_package_manager h w name default_type preferred;
          resolved1 = (if dict_has resolved actual_type then resolved
                       else dict_set actual_type [] resolved);
          resolved2 = dict_set actual_type
                        ((case dict_get resolved1 actual_type of Some l \<Rightarrow> l | None \<Rightarrow> [])
                           @ [name]) resolved1
      in resolve_entries h w default_type rest resolved2)"

fun resolve_sections ::
  "'w host \<Rightarrow> 'w \<Rightarrow> (string, string list) dict \<Rightarrow> (string, string list) dict
     \<Rightarrow> (string, string list) dict" where
  "resolve_sections h w [] resolved = resolved"
| "resolve_sections h w ((default_type, packages) # rest) resolved =
     (if default_type = ''custom''
      then resolve_sections h w rest (dict_set ''custom'' packages resolved)
      else if packages = [] then resolve_sections h w rest resolved
      else resolve_sections h w rest (resolve_entries h w default_type packages resolved))"

definition resolve_all_packages ::
  "'w host \<Rightarrow> 'w \<Rightarrow> (string, string list) dict \<Rightarrow> (string, string list) dict" where
  "resolve_all_packages h w data = resolve_sections h w data []"

text \<open>
  The three conditions of the resolver on an override identifier: it is a key of the
  registry, its manager's tool is on the PATH, and an active category lists it.
\<close>

definition registered :: "string \<Rightarrow> bool" where
  "registered b = dict_has MANAGERS b"

definition backend_available :: "'w host \<Rightarrow> 'w \<Rightarrow> string \<Rightarrow> bool" where
  "backend_available h w b =
     (case dict_get MANAGERS b of Some m \<Rightarrow> is_available h w m | None \<Rightarrow> False)"

definition in_active_category :: "'w host \<Rightarrow> string \<Rightarrow> bool" where
  "in_active_category h b =
     (\<exists>cat_name \<in> set (get_active_categories h). b \<in> set (types_of_category cat_name))"

section \<open>The manifest document\<close>

text \<open>
  A manifest entry is a string, a mapping with \<open>name\<close> and \<open>platforms\<close> or
  \<open>platform\<close> keys (no function reads another key), or some other YAML scalar, such as
  an integer application id. The document maps a category to a mapping from backend
  identifier to a list of entries, and has a top-level \<open>custom\<close> list. This is the
  well-formed document: the value under a category key is a mapping and the value under
  \<open>custom\<close> is a list.
\<close>

datatype platforms = PStr string | PList "string list"

record entry_fields =
  ef_name :: "string option"
  ef_platforms :: "platforms option"
  ef_platform :: "platforms option"

datatype entry = EStr string | EDict entry_fields | EInt int

record raw_data =
  rd_categories :: "(string, (string, entry list) dict) dict"
  rd_custom :: "entry list option"

definition empty_raw :: raw_data where
  "empty_raw = \<lparr>rd_categories = [], rd_custom = None\<rparr>"

text \<open>What \<open>yaml.safe_load\<close> returns for the file: nothing, or a mapping.\<close>

datatype yaml_doc = YNull | YMap raw_data

text \<open>Python truthiness of an optional platform value and of an optional string.\<close>

definition platforms_truthy :: "platforms option \<Rightarrow> bool" where
  "platforms_truthy p =
     (case p of None \<Rightarrow> False | Some (PStr s) \<Rightarrow> s \<noteq> [] | Some (PList l) \<Rightarrow> l \<noteq> [])"

definition str_truthy :: "string option \<Rightarrow> bool" where
  "str_truthy n = (case n of None \<Rightarrow> False | Some s \<Rightarrow> s \<noteq> [])"

text \<open>\<open>_platform_matches\<close>: the loop returns at the first tag that matches.\<close>

definition platform_tag_matches :: "'w host \<Rightarrow> string \<Rightarrow> bool" where
  "platform_tag_matches h platform =
     (if platform = ''wsl'' \<and> is_wsl h then True
      else if platform = ''darwin'' \<and> is_macos h then True
      else if platform = ''linux'' \<and> sys_platform h = ''linux'' then True
      else if platform \<in> {''windows'', ''win32''} \<and> sys_platform h = ''win32'' then True
      else platform = sys_platform h)"

fun platform_scan :: "'w host \<Rightarrow> string list \<Rightarrow> bool" where
  "platform_scan h [] = False"
| "platform_scan h (platform # rest) =
     (if platform_tag_matches h platform then True else platform_scan h rest)"

definition platform_matches :: "'w host \<Rightarrow> platforms option \<Rightarrow> bool" where
  "platform_matches h platforms =
     (if \<not> platforms_truthy platforms then True
      else (case platforms of
              Some (PStr s) \<Rightarrow> platform_scan h [s]
            | Some (PList l) \<Rightarrow> platform_scan h l
            | None \<Rightarrow> True))"

text \<open>\<open>_parse_custom_entry\<close>; \<open>a or b\<close> is \<open>a\<close> when \<open>a\<close> is truthy, else \<open>b\<close>.\<close>

definition parse_custom_entry :: "entry \<Rightarrow> string option \<times> platforms option" where
  "parse_custom_entry e =
     (case e of
        EDict f \<Rightarrow>
          (ef_name f, if platforms_truthy (ef_platforms f) then ef_platforms f else ef_platform f)
      | EStr s \<Rightarrow> (Some s, None)
      | EInt i \<Rightarrow> (None, None))"

text \<open>
  The loop that both branches of the flattening run over a list of entries:
  \<open>if name and _platform_matches(platforms): names.append(name)\<close>.
\<close>

fun collect_names :: "'w host \<Rightarrow> entry list \<Rightarrow> string list \<Rightarrow> string list" where
  "collect_names h [] names = names"
| "collect_names h (e # rest) names =
     (let (name, platforms) = parse_custom_entry e
      in if str_truthy name \<and> platform_matches h platforms
         then collect_names h rest (names @ [the name])
         else collect_names h rest names)"

fun flatten_types ::
  "'w host \<Rightarrow> (string, entry list) dict \<Rightarrow> string list \<Rightarrow> (string, string list) dict
     \<Rightarrow> (string, string list) dict" where
  "flatten_types h cat_data [] flattened = flattened"
| "flatten_types h cat_data (pkg_type # rest) flattened =
     (case dict_get cat_data pkg_type of
        None \<Rightarrow> flatten_types h cat_data rest flattened
      | Some entries \<Rightarrow>
          (let pkg_names = collect_names h entries []
           in if pkg_names \<noteq> []
              then flatten_types h cat_data rest (dict_set pkg_type pkg_names flattened)
              else flatten_types h cat_data rest flattened))"

fun flatten_categories ::
  "'w host \<Rightarrow> raw_data \<Rightarrow> string list \<Rightarrow> (string, string list) dict
     \<Rightarrow> (string, string list) dict" where
  "flatten_categories h raw [] flattened = flattened"
| "flatten_categories h raw (cat_name # rest) flattened =
     (if cat_name = ''custom''
      then (case rd_custom raw of
              None \<Rightarrow> flatten_categories h raw rest flattened
            | Some entries \<Rightarrow>
                (let custom_names = collect_names h entries []
                 in if custom_names \<noteq> []
                    then flatten_categories h raw rest (dict_set ''custom'' custom_names flattened)
                    else flatten_categories h raw rest flattened))
      else (let cat_data = (case dict_get (rd_categories raw) cat_name of
                              Some d \<Rightarrow> d | None \<Rightarrow> [])
            in flatten_categories h raw rest
                 (flatten_types h cat_data (types_of_category cat_name) flattened)))"

definition flatten :: "'w host \<Rightarrow> raw_data \<Rightarrow> (string, string list) dict" where
  "flatten h raw = flatten_categories h raw (get_active_categories h) []"

section \<open>Program state, console and errors\<close>

text \<open>
  The message of a \<open>CommandResult\<close>: empty, the text of a \<open>CalledProcessError\<close>
  (never empty), or a fixed text. \<open>message_or m d\<close> is \<open>m or d\<close>.
\<close>

datatype message = NoMessage | CalledProcessError "string list" int | Text string

definition message_or :: "message \<Rightarrow> string \<Rightarrow> message" where
  "message_or m d = (case m of NoMessage \<Rightarrow> Text d | Text t \<Rightarrow> (if t = [] then Text d else m)
                     | CalledProcessError argv rc \<Rightarrow> m)"

text \<open>
  What a command prints, one constructor for each message of the source (the Rich markup
  left out), with the values the message interpolates.
\<close>

datatype msg =
    WouldRun string                  \<comment> \<open>\<open>Would run: {cmd_str}\<close>\<close>
  | Running string                   \<comment> \<open>\<open>$ {cmd_str}\<close>\<close>
  | WouldRunIn string string         \<comment> \<open>\<open>Would run in {shell}:\<close> and the script's lines\<close>
  | RunningIn string                 \<comment> \<open>\<open>Running in {shell}...\<close>\<close>
  | ShellLine string                 \<comment> \<open>\<open>Shell: {shell}\<close>\<close>
  | DryRunPanel                      \<comment> \<open>\<open>DRY RUN - No changes will be made\<close>\<close>
  | ManifestLine                     \<comment> \<open>\<open>Manifest: {path}\<close>\<close>
  | PackageTypes "string list"       \<comment> \<open>\<open>Package types: {', '.join(all_types)}\<close>\<close>
  | NoSpecFound string               \<comment> \<open>\<open>Error: No spec found for '{name}'\<close>\<close>
  | AllInstalled string nat          \<comment> \<open>\<open>{pkg_type}: all {n} packages installed\<close>\<close>
  | Header string string "string list"  \<comment> \<open>\<open>_print_header(action, pkg_type, packages)\<close>\<close>
  | Skipping nat                     \<comment> \<open>\<open>Skipping {n} already installed\<close>\<close>
  | CustomName string                \<comment> \<open>the name of the custom package being installed\<close>
  | Depends "string list"            \<comment> \<open>\<open>Depends: {', '.join(depends)}\<close>\<close>
  | PrintSuccess string              \<comment> \<open>\<open>_print_success(message)\<close>\<close>
  | PrintError message               \<comment> \<open>\<open>_print_error(message)\<close>\<close>
  | UnknownType string               \<comment> \<open>\<open>Error: Unknown package type '{pkg_type}'\<close>\<close>
  | ToolNotFound string              \<comment> \<open>\<open>Error: Required tool '{tool}' not found in PATH\<close>\<close>
  | ManifestNotFound                 \<comment> \<open>\<open>Error: Manifest file not found: {path}\<close>\<close>
  | NoSpecForCustom string           \<comment> \<open>\<open>Error: No spec found for custom package '{name}'.\<close>\<close>
  | NotSupportedHere string          \<comment> \<open>\<open>Error: Custom package '{name}' is not supported on this platform.\<close>\<close>
  | AddedToManifest                  \<comment> \<open>\<open>Added to manifest: {path}\<close>\<close>
  | AllOkPanel                       \<comment> \<open>\<open>All packages installed successfully!\<close>\<close>
  | ErrorsPanel nat                  \<comment> \<open>\<open>Completed with {error_count} error(s)\<close>\<close>

text \<open>
  The state a command threads: the machine, the manifest file at the path the command
  uses (\<open>None\<close> when there is no file), the number of times the file has been written,
  the console, and the argument vectors of the processes started by \<open>_run_command\<close>,
  \<open>_run_script\<close> and \<open>is_installed\<close> (the commands, scripts and checks).
\<close>

record 'w state =
  world :: 'w
  manifest_file :: "yaml_doc option"
  writes :: nat
  console :: "msg list"
  spawned :: "string list list"

text \<open>
  \<open>SystemExit(code)\<close> is what the commands raise themselves; \<open>KeyError\<close> is what
  \<open>specs[name]\<close> raises on a missing key.
\<close>

datatype error = SystemExit nat | KeyError string

type_synonym ('w, 'a) result = "(error \<times> 'w state) + ('a \<times> 'w state)"

definition print :: "msg \<Rightarrow> 'w state \<Rightarrow> 'w state" where
  "print m s = s\<lparr>console := console s @ [m]\<rparr>"

text \<open>
  \<open>_load_manifest\<close> and \<open>_save_manifest\<close>. \<open>doc_mapping\<close> is
  \<open>yaml.safe_load(f) or {}\<close>. The file is modelled by the document it parses to;
  \<open>yaml.dump\<close> writes the mapping it is given.
\<close>

definition doc_mapping :: "yaml_doc \<Rightarrow> raw_data" where
  "doc_mapping doc = (case doc of YNull \<Rightarrow> empty_raw | YMap d \<Rightarrow> d)"

definition load_manifest ::
  "'w host \<Rightarrow> 'w state \<Rightarrow> ('w, (string, string list) dict \<times> raw_data) result" where
  "load_manifest h s =
     (case manifest_file s of
        None \<Rightarrow> Inl (SystemExit 1, print ManifestNotFound s)
      | Some doc \<Rightarrow>
          (let raw = doc_mapping doc
           in Inr ((flatten h raw, raw), s)))"

definition save_manifest :: "raw_data \<Rightarrow> 'w state \<Rightarrow> 'w state" where
  "save_manifest raw s = s\<lparr>manifest_file := Some (YMap raw), writes := Suc (writes s)\<rparr>"

section \<open>The execution primitive and the managers' install methods\<close>

text \<open>\<open>CommandResult\<close>.\<close>

record CommandResult =
  success :: bool
  message :: message

definition ok_result :: CommandResult where
  "ok_result = \<lparr>success = True, message = NoMessage\<rparr>"

fun join_with :: "string \<Rightarrow> string list \<Rightarrow> string" where
  "join_with sep [] = []"
| "join_with sep [x] = x"
| "join_with sep (x # y # rest) = x @ sep @ join_with sep (y # rest)"

text \<open>
  \<open>PackageManager._run_command\<close>. With \<open>check=True\<close> a non-zero return code raises
  \<open>CalledProcessError\<close>, which the method catches.
\<close>

definition run_command ::
  "'w host \<Rightarrow> string list \<Rightarrow> bool \<Rightarrow> bool \<Rightarrow> 'w state \<Rightarrow> CommandResult \<times> 'w state" where
  "run_command h cmd dry_run check s =
     (let cmd_str = join_with '' '' cmd
      in if dry_run then (ok_result, print (WouldRun cmd_str) s)
         else (let s1 = print (Running cmd_str) s;
                   shell = detect_shell h (world s1);
                   argv = [shell, ''-l'', ''-c'', cmd_str];
                   (returncode, w') = spawn h (world s1) argv;
                   s2 = s1\<lparr>world := w', spawned := spawned s1 @ [argv]\<rparr>
               in if check \<and> returncode \<noteq> 0
                  then (\<lparr>success = False, message = CalledProcessError argv returncode\<rparr>, s2)
                  else (\<lparr>success = (returncode = 0), message = NoMessage\<rparr>, s2)))"

text \<open>
  The loop of \<open>PythonManager.install\<close>, \<open>MasManager.install\<close> and \<open>BunManager.install\<close>:
  one command for each package, returning the first failure.
\<close>

fun install_each ::
  "'w host \<Rightarrow> (string \<Rightarrow> string list) \<Rightarrow> string list \<Rightarrow> bool \<Rightarrow> 'w state
     \<Rightarrow> CommandResult \<times> 'w state" where
  "install_each h cmd_of [] dry_run s = (ok_result, s)"
| "install_each h cmd_of (pkg # rest) dry_run s =
     (let (result, s1) = run_command h (cmd_of pkg) dry_run True s
      in if \<not> success result then (result, s1)
         else install_each h cmd_of rest dry_run s1)"

text \<open>The loop of \<open>WingetManager.install\<close>: every command runs, the results are collected.\<close>

fun install_all ::
  "'w host \<Rightarrow> (string \<Rightarrow> string list) \<Rightarrow> string list \<Rightarrow> bool \<Rightarrow> CommandResult list
     \<Rightarrow> 'w state \<Rightarrow> CommandResult list \<times> 'w state" where
  "install_all h cmd_of [] dry_run results s = (results, s)"
| "install_all h cmd_of (pkg # rest) dry_run results s =
     (let (result, s1) = run_command h (cmd_of pkg) dry_run True s
      in install_all h cmd_of rest dry_run (results @ [result]) s1)"

text \<open>\<open>shlex.quote\<close>.\<close>

definition shlex_safe :: "char \<Rightarrow> bool" where
  "shlex_safe c =
     (let n = (of_char c :: nat)
      in (48 \<le> n \<and> n \<le> 57) \<or> (65 \<le> n \<and> n \<le> 90) \<or> (97 \<le> n \<and> n \<le> 122)
         \<or> c \<in> set ''_@%+=:,./-'')"

definition shlex_quote :: "string \<Rightarrow> string" where
  "shlex_quote s =
     (if s = [] then [CHR 0x27, CHR 0x27]
      else if list_all shlex_safe s then s
      else [CHR 0x27]
           @ concat (map (\<lambda>c. if c = CHR 0x27
                               then [CHR 0x27, CHR 0x22, CHR 0x27, CHR 0x22, CHR 0x27]
                               else [c]) s)
           @ [CHR 0x27])"

definition manager_install ::
  "'w host \<Rightarrow> manager \<Rightarrow> string list \<Rightarrow> bool \<Rightarrow> 'w state \<Rightarrow> CommandResult \<times> 'w state" where
  "manager_install h m packages dry_run s =
     (case mgr_class m of
        CondaManager \<Rightarrow>
          run_command h ([''micromamba'', ''install'', ''-n'', ''base'', ''-y''] @ packages)
            dry_run True s
      | PythonManager \<Rightarrow>
          install_each h (\<lambda>pkg. [''uv'', ''tool'', ''install'', pkg, ''--force'']) packages dry_run s
      | RustManager \<Rightarrow>
          run_command h ([''cargo'', ''install'', ''--locked''] @ packages) dry_run True s
      | BrewManager \<Rightarrow>
          run_command h ([''brew'', ''install''] @ packages) dry_run True s
      | CaskManager \<Rightarrow>
          run_command h ([''brew'', ''install'', ''--cask''] @ packages) dry_run True s
      | MasManager \<Rightarrow>
          install_each h (\<lambda>app_id. [''mas'', ''install'', app_id]) packages dry_run s
      | WingetManager \<Rightarrow>
          (let (results, s1) =
                 install_all h (\<lambda>pkg. [''winget.exe'', ''install'', shlex_quote pkg, ''--silent'',
                                         ''--accept-package-agreements'',
                                         ''--accept-source-agreements''])
                   packages dry_run [] s
           in (\<lparr>success = list_all success results, message = NoMessage\<rparr>, s1))
      | BunManager \<Rightarrow>
          install_each h (\<lambda>pkg. [''bun'', ''add'', ''-g'', pkg]) packages dry_run s)"

section \<open>The custom manager\<close>

record CustomPackageConfig =
  cp_name :: string
  cp_install :: string
  cp_check :: string
  cp_remove :: string
  cp_shell :: string
  cp_depends :: "string list"
  cp_description :: string

definition str_or_empty :: "string option \<Rightarrow> string" where
  "str_or_empty v = (case v of Some s \<Rightarrow> s | None \<Rightarrow> [])"

text \<open>
  \<open>CustomManager._parse_config\<close>: a bare string is the install command; a mapping gives
  each field, a missing one defaulting to the empty string (or list).
\<close>

definition parse_config :: "string \<Rightarrow> spec \<Rightarrow> CustomPackageConfig" where
  "parse_config name config =
     (case config of
        SpecStr cmd \<Rightarrow>
          \<lparr>cp_name = name, cp_install = cmd, cp_check = [], cp_remove = [], cp_shell = [],
           cp_depends = [], cp_description = []\<rparr>
      | SpecDict f \<Rightarrow>
          \<lparr>cp_name = name, cp_install = str_or_empty (sf_install f),
           cp_check = str_or_empty (sf_check f), cp_remove = str_or_empty (sf_remove f),
           cp_shell = str_or_empty (sf_shell f),
           cp_depends = (case sf_depends f of Some l \<Rightarrow> l | None \<Rightarrow> []),
           cp_description = str_or_empty (sf_description f)\<rparr>)"

definition get_shell :: "'w host \<Rightarrow> 'w \<Rightarrow> CustomPackageConfig \<Rightarrow> string" where
  "get_shell h w pkg_config =
     (if cp_shell pkg_config \<noteq> [] then cp_shell pkg_config else detect_shell h w)"

text \<open>\<open>CustomManager._run_script\<close> (\<open>check=False\<close>: the return code decides).\<close>

definition run_script ::
  "'w host \<Rightarrow> string \<Rightarrow> string \<Rightarrow> bool \<Rightarrow> 'w state \<Rightarrow> CommandResult \<times> 'w state" where
  "run_script h script shell dry_run s =
     (if dry_run then (ok_result, print (WouldRunIn shell script) s)
      else (let s1 = print (RunningIn shell) s;
                argv = [shell, ''-l'', ''-c'', script];
                (returncode, w') = spawn h (world s1) argv;
                s2 = s1\<lparr>world := w', spawned := spawned s1 @ [argv]\<rparr>
            in (\<lparr>success = (returncode = 0), message = NoMessage\<rparr>, s2)))"

text \<open>
  \<open>CustomManager.is_installed\<close>: without a check command the answer is False and nothing
  runs; with one, the check runs and its return code decides.
\<close>

definition is_installed ::
  "'w host \<Rightarrow> CustomPackageConfig \<Rightarrow> 'w state \<Rightarrow> bool \<times> 'w state" where
  "is_installed h pkg_config s =
     (if cp_check pkg_config = [] then (False, s)
      else (let shell = get_shell h (world s) pkg_config;
                argv = [shell, ''-l'', ''-c'', cp_check pkg_config];
                (returncode, w') = spawn h (world s) argv
            in (returncode = 0, s\<lparr>world := w', spawned := spawned s @ [argv]\<rparr>)))"

definition custom_install ::
  "'w host \<Rightarrow> CustomPackageConfig \<Rightarrow> bool \<Rightarrow> 'w state \<Rightarrow> CommandResult \<times> 'w state" where
  "custom_install h pkg_config dry_run s =
     (let shell = get_shell h (world s) pkg_config;
          s1 = print (ShellLine shell) s
      in run_script h (cp_install pkg_config) shell dry_run s1)"

section \<open>Updating the raw manifest\<close>

datatype action = Add | Remove

text \<open>
  \<open>_parse_package_entry\<close> on an entry of any encoding: a non-string entry is returned
  whole, so its "name" is never equal to a string.
\<close>

definition entry_pkg_name :: "entry \<Rightarrow> string option" where
  "entry_pkg_name e =
     (case e of EStr s \<Rightarrow> Some (fst (parse_package_entry s)) | EDict f \<Rightarrow> None | EInt i \<Rightarrow> None)"

text \<open>
  The search loop of the remove branch: the first entry whose parsed name is \<open>name\<close>.
  Only a string entry can match, so the result is that entry's string.
\<close>

fun find_to_remove :: "string \<Rightarrow> entry list \<Rightarrow> string option" where
  "find_to_remove name [] = None"
| "find_to_remove name (e # rest) =
     (case e of
        EStr s \<Rightarrow> (if entry_pkg_name e = Some name then Some s else find_to_remove name rest)
      | EDict f \<Rightarrow> find_to_remove name rest
      | EInt i \<Rightarrow> find_to_remove name rest)"

text \<open>
  \<open>_update_raw_manifest\<close>. In the custom branch every action other than remove adds. In the
  standard branch the two keys are created before the action is looked at, and
  \<open>if to_remove:\<close> is false for the empty string.
\<close>

definition update_raw_manifest :: "raw_data \<Rightarrow> string \<Rightarrow> string \<Rightarrow> action \<Rightarrow> raw_data" where
  "update_raw_manifest raw pkg_type name act =
     (case get_category_for_type pkg_type of
        None \<Rightarrow> raw
      | Some cat_name \<Rightarrow>
          if cat_name = ''custom''
          then (let custom_list = (case rd_custom raw of Some l \<Rightarrow> l | None \<Rightarrow> [])
                in if act = Remove
                   then (case rd_custom raw of
                           None \<Rightarrow> raw
                         | Some l \<Rightarrow>
                             (let kept = filter (\<lambda>e. fst (parse_custom_entry e) \<noteq> Some name)
                                           custom_list
                              in if kept = [] then raw\<lparr>rd_custom := None\<rparr>
                                 else raw\<lparr>rd_custom := Some kept\<rparr>))
                   else if \<not> list_ex (\<lambda>e. fst (parse_custom_entry e) = Some name) custom_list
                        then raw\<lparr>rd_custom := Some (custom_list @ [EStr name])\<rparr>
                        else raw)
          else (let cats1 = (if dict_has (rd_categories raw) cat_name then rd_categories raw
                             else dict_set cat_name [] (rd_categories raw));
                    cat_data = (case dict_get cats1 cat_name of Some d \<Rightarrow> d | None \<Rightarrow> []);
                    cat_data1 = (if dict_has cat_data pkg_type then cat_data
                                 else dict_set pkg_type [] cat_data);
                    pkg_list = (case dict_get cat_data1 pkg_type of Some l \<Rightarrow> l | None \<Rightarrow> []);
                    pkg_list1 =
                      (if act = Add \<and> EStr name \<notin> set pkg_list then pkg_list @ [EStr name]
                       else if act = Remove
                       then (case find_to_remove name pkg_list of
                               None \<Rightarrow> pkg_list
                             | Some to_remove \<Rightarrow>
                                 if to_remove \<noteq> [] then remove1 (EStr to_remove) pkg_list
                                 else pkg_list)
                       else pkg_list)
                in raw\<lparr>rd_categories :=
                         dict_set cat_name (dict_set pkg_type pkg_list1 cat_data1) cats1\<rparr>))"

text \<open>\<open>_find_custom_entry\<close>.\<close>

fun find_custom_entry_in :: "entry list \<Rightarrow> string \<Rightarrow> platforms option" where
  "find_custom_entry_in [] name = None"
| "find_custom_entry_in (e # rest) name =
     (let (entry_name, platforms) = parse_custom_entry e
      in if entry_name = Some name then platforms else find_custom_entry_in rest name)"

definition find_custom_entry :: "raw_data \<Rightarrow> string \<Rightarrow> platforms option" where
  "find_custom_entry raw name =
     find_custom_entry_in (case rd_custom raw of Some l \<Rightarrow> l | None \<Rightarrow> []) name"

section \<open>The commands\<close>

text \<open>\<open>_get_manager\<close>.\<close>

definition get_manager :: "'w host \<Rightarrow> string \<Rightarrow> 'w state \<Rightarrow> ('w, manager) result" where
  "get_manager h pkg_type s =
     (case dict_get MANAGERS pkg_type of
        None \<Rightarrow> Inl (SystemExit 1, print (UnknownType pkg_type) s)
      | Some m \<Rightarrow>
          if \<not> is_available h (world s) m
          then Inl (SystemExit 1, print (ToolNotFound (mgr_tool m)) s)
          else Inr (m, s))"

text \<open>
  \<open>_reorder_types\<close>. The generator passed to \<open>extend\<close> tests \<open>t not in ordered\<close> while
  \<open>ordered\<close> grows, so it is a loop that appends one type at a time.
\<close>

fun extend_unordered :: "string list \<Rightarrow> string list \<Rightarrow> string list" where
  "extend_unordered [] ordered = ordered"
| "extend_unordered (t # rest) ordered =
     (if t \<notin> set ordered then extend_unordered rest (ordered @ [t])
      else extend_unordered rest ordered)"

definition reorder_types :: "string list \<Rightarrow> string list" where
  "reorder_types types = extend_unordered types (filter (\<lambda>t. t \<in> set types) MANAGER_ORDER)"

text \<open>\<open>_get_installed_names\<close>.\<close>

definition get_installed_names :: "'w host \<Rightarrow> 'w \<Rightarrow> manager \<Rightarrow> string set" where
  "get_installed_names h w m =
     (let installed = installed_packages h w (mgr_name m);
          names = set (map pi_name installed)
      in if mgr_name m = ''winget''
         then (let names1 = names \<union> set (filter (\<lambda>d. d \<noteq> []) (map pi_display_name installed))
               in names1 \<union> lower ` names1)
         else names)"

text \<open>The counters of \<open>init\<close>.\<close>

record counters =
  success_count :: nat
  error_count :: nat

text \<open>The first loop of the custom branch of \<open>init\<close>: which names are missing.\<close>

fun custom_missing ::
  "'w host \<Rightarrow> (string, spec) dict \<Rightarrow> string list \<Rightarrow> string list \<Rightarrow> counters \<Rightarrow> 'w state
     \<Rightarrow> string list \<times> counters \<times> 'w state" where
  "custom_missing h specs [] missing c s = (missing, c, s)"
| "custom_missing h specs (name # rest) missing c s =
     (case dict_get specs name of
        None \<Rightarrow>
          custom_missing h specs rest missing (c\<lparr>error_count := error_count c + 1\<rparr>)
            (print (NoSpecFound name) s)
      | Some config \<Rightarrow>
          (let pkg_config = parse_config name config;
               (inst, s1) = is_installed h pkg_config s
           in if \<not> inst then custom_missing h specs rest (missing @ [name]) c s1
              else custom_missing h specs rest missing c s1))"

text \<open>The second loop: install each missing custom package.\<close>

fun custom_install_missing ::
  "'w host \<Rightarrow> (string, spec) dict \<Rightarrow> bool \<Rightarrow> string list \<Rightarrow> counters \<Rightarrow> 'w state
     \<Rightarrow> ('w, counters) result" where
  "custom_install_missing h specs dry_run [] c s = Inr (c, s)"
| "custom_install_missing h specs dry_run (name # rest) c s =
     (case dict_get specs name of
        None \<Rightarrow> Inl (KeyError name, s)
      | Some config \<Rightarrow>
          (let pkg_config = parse_config name config;
               s1 = print (CustomName name) s;
               s2 = (if cp_depends pkg_config \<noteq> [] then print (Depends (cp_depends pkg_config)) s1
                     else s1);
               (result, s3) = custom_install h pkg_config dry_run s2
           in if success result
              then custom_install_missing h specs dry_run rest c
                     (print (PrintSuccess (name @ '' installed'')) s3)
              else custom_install_missing h specs dry_run rest
                     (c\<lparr>error_count := error_count c + 1\<rparr>)
                     (print (PrintError (message_or (message result)
                                           (name @ '' installation failed''))) s3)))"

definition init_custom ::
  "'w host \<Rightarrow> string list \<Rightarrow> bool \<Rightarrow> counters \<Rightarrow> 'w state \<Rightarrow> ('w, counters) result" where
  "init_custom h pkg_names dry_run c s =
     (let specs = load_specs h;
          (missing, c1, s1) = custom_missing h specs pkg_names [] c s
      in if missing = [] then Inr (c1, print (AllInstalled ''custom'' (length pkg_names)) s1)
         else (let s2 = print (Header ''Installing'' ''custom'' missing) s1;
                   s3 = print (Skipping (length pkg_names - length missing)) s2
               in custom_install_missing h specs dry_run missing c1 s3))"

text \<open>The standard branch of \<open>init\<close>, for one package type.\<close>

definition missing_packages :: "manager \<Rightarrow> string set \<Rightarrow> string list \<Rightarrow> string list" where
  "missing_packages m installed packages =
     (if mgr_name m = ''winget''
      then filter (\<lambda>p. p \<notin> installed \<and> lower p \<notin> installed) packages
      else filter (\<lambda>p. p \<notin> installed) packages)"

definition init_standard ::
  "'w host \<Rightarrow> string \<Rightarrow> string list \<Rightarrow> bool \<Rightarrow> counters \<Rightarrow> 'w state \<Rightarrow> ('w, counters) result" where
  "init_standard h pkg_type packages dry_run c s =
     (case get_manager h pkg_type s of
        Inl e \<Rightarrow> Inl e
      | Inr (m, s1) \<Rightarrow>
          (let installed = get_installed_names h (world s1) m;
               missing = missing_packages m installed packages
           in if missing = []
              then Inr (c, print (AllInstalled pkg_type (length packages)) s1)
              else (let s2 = print (Header ''Installing'' pkg_type missing) s1;
                        s3 = print (Skipping (length packages - length missing)) s2;
                        (result, s4) = manager_install h m missing dry_run s3
                    in if success result
                       then Inr (c\<lparr>success_count := success_count c + 1\<rparr>,
                                 print (PrintSuccess ''Done'') s4)
                       else Inr (c\<lparr>error_count := error_count c + 1\<rparr>,
                                 print (PrintError (message_or (message result)
                                                      ''Installation failed'')) s4))))"

text \<open>The body of the loop \<open>for pkg_type in all_types\<close>, and the loop.\<close>

definition init_type ::
  "'w host \<Rightarrow> (string, string list) dict \<Rightarrow> bool \<Rightarrow> string \<Rightarrow> counters \<Rightarrow> 'w state
     \<Rightarrow> ('w, counters) result" where
  "init_type h data dry_run pkg_type c s =
     (let packages = (case dict_get data pkg_type of Some l \<Rightarrow> l | None \<Rightarrow> [])
      in if packages = [] then Inr (c, s)
         else if pkg_type = ''custom'' then init_custom h packages dry_run c s
         else init_standard h pkg_type packages dry_run c s)"

fun init_loop ::
  "'w host \<Rightarrow> (string, string list) dict \<Rightarrow> bool \<Rightarrow> string list \<Rightarrow> counters \<Rightarrow> 'w state
     \<Rightarrow> ('w, counters) result" where
  "init_loop h data dry_run [] c s = Inr (c, s)"
| "init_loop h data dry_run (pkg_type # rest) c s =
     (case init_type h data dry_run pkg_type c s of
        Inl e \<Rightarrow> Inl e
      | Inr (c1, s1) \<Rightarrow> init_loop h data dry_run rest c1 s1)"

text \<open>\<open>types.split(",")\<close> and \<open>t.strip()\<close> for the \<open>--types\<close> option.\<close>

fun split_on :: "char \<Rightarrow> string \<Rightarrow> string list" where
  "split_on sep [] = [[]]"
| "split_on sep (x # xs) =
     (if x = sep then [] # split_on sep xs
      else (case split_on sep xs of
              [] \<Rightarrow> [[x]]
            | w # ws \<Rightarrow> (x # w) # ws))"

definition is_space :: "char \<Rightarrow> bool" where
  "is_space c = (let n = (of_char c :: nat) in (9 \<le> n \<and> n \<le> 13) \<or> (28 \<le> n \<and> n \<le> 32))"

definition strip :: "string \<Rightarrow> string" where
  "strip t = rev (dropWhile is_space (rev (dropWhile is_space t)))"

text \<open>
  \<open>init\<close>. The command returns nothing; the model returns the two counters so that they
  can be observed.
\<close>

definition init :: "'w host \<Rightarrow> string option \<Rightarrow> bool \<Rightarrow> 'w state \<Rightarrow> ('w, counters) result" where
  "init h types dry_run s0 =
     (case load_manifest h s0 of
        Inl e \<Rightarrow> Inl e
      | Inr ((flattened, raw), s1) \<Rightarrow>
          (let data = resolve_all_packages h (world s1) flattened;
               s2 = (if dry_run then print DryRunPanel s1 else s1);
               all_types0 = (if str_truthy types then map strip (split_on CHR '','' (the types))
                             else map fst data);
               all_types = reorder_types all_types0;
               s3 = print (PackageTypes all_types) (print ManifestLine s2)
           in case init_loop h data dry_run all_types
                     \<lparr>success_count = 0, error_count = 0\<rparr> s3 of
                Inl e \<Rightarrow> Inl e
              | Inr (c, s4) \<Rightarrow>
                  Inr (c, print (if error_count c = 0 then AllOkPanel
                                 else ErrorsPanel (error_count c)) s4)))"

text \<open>\<open>install\<close>, the single-package command.\<close>

definition install_custom ::
  "'w host \<Rightarrow> (string, string list) dict \<Rightarrow> raw_data \<Rightarrow> string \<Rightarrow> bool \<Rightarrow> 'w state
     \<Rightarrow> ('w, unit) result" where
  "install_custom h data raw name dry_run s =
     (case dict_get (load_specs h) name of
        None \<Rightarrow> Inl (SystemExit 1, print (NoSpecForCustom name) s)
      | Some config \<Rightarrow>
          (let platforms = find_custom_entry raw name
           in if platforms_truthy platforms \<and> \<not> platform_matches h platforms
              then Inl (SystemExit 1, print (NotSupportedHere name) s)
              else (let pkg_config = parse_config name config;
                        s1 = print (Header ''Installing'' ''custom'' [name]) s;
                        s2 = (if cp_depends pkg_config \<noteq> []
                              then print (Depends (cp_depends pkg_config)) s1 else s1);
                        (result, s3) = custom_install h pkg_config dry_run s2
                    in if success result
                       then (let s4 = print (PrintSuccess ''Done'') s3
                             in if \<not> dry_run
                                then (let custom_list = (case dict_get data ''custom'' of
                                                           Some l \<Rightarrow> l | None \<Rightarrow> [])
                                      in if name \<notin> set custom_list
                                         then (let raw1 =
                                                     raw\<lparr>rd_custom :=
                                                           Some ((case rd_custom raw of
                                                                    Some l \<Rightarrow> l | None \<Rightarrow> [])
                                                                 @ [EStr name])\<rparr>
                                               in Inr ((), print AddedToManifest
                                                             (save_manifest raw1 s4)))
                                         else Inr ((), s4))
                                else Inr ((), s4))
                       else Inl (SystemExit 1,
                                 print (PrintError (message_or (message result)
                                                      ''Installation failed'')) s3))))"

definition install_standard ::
  "'w host \<Rightarrow> (string, string list) dict \<Rightarrow> raw_data \<Rightarrow> string \<Rightarrow> string \<Rightarrow> bool \<Rightarrow> 'w state
     \<Rightarrow> ('w, unit) result" where
  "install_standard h data raw pkg_type name dry_run s =
     (let s1 = print (Header ''Installing'' pkg_type [name]) s
      in case get_manager h pkg_type s1 of
           Inl e \<Rightarrow> Inl e
         | Inr (m, s2) \<Rightarrow>
             (let (result, s3) = manager_install h m [name] dry_run s2
              in if success result
                 then (let s4 = print (PrintSuccess ''Done'') s3
                       in if \<not> dry_run
                          then (if name \<notin> set (case dict_get data pkg_type of
                                                   Some l \<Rightarrow> l | None \<Rightarrow> [])
                                then (let raw1 = update_raw_manifest raw pkg_type name Add
                                      in Inr ((), print AddedToManifest (save_manifest raw1 s4)))
                                else Inr ((), s4))
                          else Inr ((), s4))
                 else Inl (SystemExit 1,
                           print (PrintError (message_or (message result)
                                                ''Installation failed'')) s3)))"

definition install ::
  "'w host \<Rightarrow> string \<Rightarrow> string \<Rightarrow> bool \<Rightarrow> 'w state \<Rightarrow> ('w, unit) result" where
  "install h pkg_type name dry_run s0 =
     (case load_manifest h s0 of
        Inl e \<Rightarrow> Inl e
      | Inr ((data, raw), s1) \<Rightarrow>
          (let s2 = (if dry_run then print DryRunPanel s1 else s1)
           in if pkg_type = ''custom'' then install_custom h data raw name dry_run s2
              else install_standard h data raw pkg_type name dry_run s2))"

text \<open>What a command leaves behind, whether it returned or exited.\<close>

definition final_state :: "('w, 'a) result \<Rightarrow> 'w state" where
  "final_state r = (case r of Inl (e, s) \<Rightarrow> s | Inr (a, s) \<Rightarrow> s)"

section \<open>Abbreviations used in the statements\<close>

text \<open>The backend an entry of a section resolves to: parse, then resolve.\<close>

definition resolved_type :: "'w host \<Rightarrow> 'w \<Rightarrow> string \<Rightarrow> string \<Rightarrow> string" where
  "resolved_type h w default_type entry =
     resolve_package_manager h w (fst (parse_package_entry entry)) default_type
       (snd (parse_package_entry entry))"

text \<open>The names of a section's entries that resolve to a given backend, in order.\<close>

definition names_resolved_to :: "'w host \<Rightarrow> 'w \<Rightarrow> string \<Rightarrow> string \<Rightarrow> string list \<Rightarrow> string list" where
  "names_resolved_to h w t default_type entries =
     map (\<lambda>e. fst (parse_package_entry e)) (filter (\<lambda>e. resolved_type h w default_type e = t) entries)"

text \<open>
  The entries the raw manifest declares for a backend, whether a backend belongs to a
  category that is active, and the names of the entries that survive the flattening.
\<close>

definition declared_entries :: "raw_data \<Rightarrow> string \<Rightarrow> entry list option" where
  "declared_entries raw t =
     (if t = ''custom'' then rd_custom raw
      else (case get_category_for_type t of
              None \<Rightarrow> None
            | Some cat_name \<Rightarrow>
                (case dict_get (rd_categories raw) cat_name of
                   None \<Rightarrow> None
                 | Some cat_data \<Rightarrow> dict_get cat_data t)))"

definition type_active :: "'w host \<Rightarrow> string \<Rightarrow> bool" where
  "type_active h t =
     (case get_category_for_type t of
        None \<Rightarrow> False
      | Some cat_name \<Rightarrow> cat_name \<in> set (get_active_categories h))"

definition surviving_names :: "'w host \<Rightarrow> entry list \<Rightarrow> string list" where
  "surviving_names h entries =
     map (\<lambda>e. the (fst (parse_custom_entry e)))
       (filter (\<lambda>e. str_truthy (fst (parse_custom_entry e))
                     \<and> platform_matches h (snd (parse_custom_entry e))) entries)"

definition nonempty_names :: "'w host \<Rightarrow> entry list option \<Rightarrow> string list option" where
  "nonempty_names h decl =
     (case decl of
        None \<Rightarrow> None
      | Some es \<Rightarrow> if surviving_names h es = [] then None else Some (surviving_names h es))"

text \<open>What one category adds to the flattened dictionary under a backend identifier.\<close>

definition contribution :: "'w host \<Rightarrow> raw_data \<Rightarrow> string \<Rightarrow> string \<Rightarrow> string list option" where
  "contribution h raw cat_name t =
     (if cat_name = ''custom''
      then (if t = ''custom'' then nonempty_names h (rd_custom raw) else None)
      else if t \<in> set (types_of_category cat_name)
           then nonempty_names h
                  (case dict_get (rd_categories raw) cat_name of
                     None \<Rightarrow> None | Some cat_data \<Rightarrow> dict_get cat_data t)
           else None)"

text \<open>
  Two states that differ at most in the console: the same machine, the same manifest
  file, no write to it and no command, script or check run in between.
\<close>

definition quiet :: "'w state \<Rightarrow> 'w state \<Rightarrow> bool" where
  "quiet s s' =
     (world s' = world s \<and> manifest_file s' = manifest_file s \<and> writes s' = writes s
      \<and> spawned s' = spawned s)"


text \<open>
  A package type that \<open>init\<close> has nothing to install for, on a machine in state \<open>w\<close>: no
  packages, or a standard type whose manager is registered and available and reports
  every package as installed. \<open>reports\<close> is what \<open>init\<close> prints for such types.
\<close>

definition already_satisfied :: "'w host \<Rightarrow> (string, string list) dict \<Rightarrow> 'w \<Rightarrow> string \<Rightarrow> bool" where
  "already_satisfied h data w t =
     (case dict_get data t of
        None \<Rightarrow> True
      | Some packages \<Rightarrow>
          packages = []
          \<or> (t \<noteq> ''custom''
              \<and> (case dict_get MANAGERS t of
                    None \<Rightarrow> False
                  | Some m \<Rightarrow> is_available h w m
                              \<and> set packages \<subseteq> get_installed_names h w m)))"

definition reports :: "(string, string list) dict \<Rightarrow> string list \<Rightarrow> msg list" where
  "reports data types =
     map (\<lambda>t. AllInstalled t (length (case dict_get data t of Some l \<Rightarrow> l | None \<Rightarrow> [])))
       (filter (\<lambda>t. (case dict_get data t of Some l \<Rightarrow> l | None \<Rightarrow> []) \<noteq> []) types)"


section \<open>Concrete machines\<close>

text \<open>
  A machine for running the model on concrete inputs: its state counts the processes
  started so far; the platform, the tools on the PATH, the return code of each command
  line, the installed packages of each manager and the custom specs are parameters.
\<close>

definition machine ::
  "string \<Rightarrow> string list \<Rightarrow> (string \<Rightarrow> int) \<Rightarrow> (string \<Rightarrow> PackageInfo list) \<Rightarrow> (string, spec) dict
     \<Rightarrow> nat host" where
  "machine plat tools returncode_of installed specs =
     \<lparr>sys_platform = plat, wsl_distro_name = None, proc_version = None,
      which = (\<lambda>w tool. tool \<in> set tools),
      detect_shell = (\<lambda>w. ''/bin/bash''),
      spawn = (\<lambda>w argv. (returncode_of (last argv), Suc w)),
      installed_packages = (\<lambda>w name. installed name),
      load_specs = specs\<rparr>"

definition mac_with_brew :: "nat host" where
  "mac_with_brew = machine ''darwin'' [''brew'', ''micromamba''] (\<lambda>cmd. 0) (\<lambda>name. []) []"

definition linux_plain :: "nat host" where
  "linux_plain = machine ''linux'' [''micromamba''] (\<lambda>cmd. 0) (\<lambda>name. []) []"



definition no_counts :: counters where
  "no_counts = \<lparr>success_count = 0, error_count = 0\<rparr>"

text \<open>
  A manifest with a brew and a conda package, what it resolves to on macOS, and three
  machines: a Mac without Homebrew, a Mac on which \<open>brew install tmux\<close> fails, and a
  Linux machine whose conda environment has python.
\<close>

definition two_backends :: raw_data where
  "two_backends =
     \<lparr>rd_categories = [(''mac'', [(''brew'', [EStr ''tmux''])]),
                       (''general'', [(''conda'', [EStr ''python''])])],
      rd_custom = None\<rparr>"

definition two_backends_resolved :: "(string, string list) dict" where
  "two_backends_resolved = [(''brew'', [''tmux'']), (''conda'', [''python''])]"

definition mac_without_brew :: "nat host" where
  "mac_without_brew = machine ''darwin'' [''micromamba''] (\<lambda>cmd. 0) (\<lambda>name. []) []"


definition linux_with_python :: "nat host" where
  "linux_with_python =
     machine ''linux'' [''micromamba''] (\<lambda>cmd. 0)
       (\<lambda>name. if name = ''conda''
                then [\<lparr>pi_name = ''python'', pi_version = ''3.12'', pi_display_name = []\<rparr>]
                else []) []"

definition start :: "yaml_doc option \<Rightarrow> nat state" where
  "start doc = \<lparr>world = 0, manifest_file = doc, writes = 0, console = [], spawned = []\<rparr>"

text \<open>
  A manifest with a macOS-only section, an entry with an override suffix and a custom
  entry restricted to macOS.
\<close>

definition sample_manifest :: raw_data where
  "sample_manifest =
     \<lparr>rd_categories =
        [(''mac'', [(''brew'', [EStr ''tmux''])]),
         (''general'', [(''conda'', [EStr ''python'', EStr ''tmux:brew''])])],
      rd_custom =
        Some [EDict \<lparr>ef_name = Some ''fisher'', ef_platforms = Some (PStr ''darwin''),
                     ef_platform = None\<rparr>]\<rparr>"

section \<open>Dictionaries\<close>

lemma dict_get_dict_set:
  "dict_get (dict_set k v d) k' = (if k' = k then Some v else dict_get d k')"
  by (induction d) (auto simp: dict_get_def)

lemma dict_has_iff: "dict_has d k \<longleftrightarrow> dict_get d k \<noteq> None"
  by (simp add: dict_has_def dict_get_def map_of_eq_None_iff)

lemma dict_has_dict_set: "dict_has (dict_set k v d) k' \<longleftrightarrow> k' = k \<or> dict_has d k'"
  by (simp add: dict_has_iff dict_get_dict_set)

section \<open>The resolver\<close>

lemma resolve_scan_eq:
  "resolve_scan cats p d =
     (if (\<exists>c \<in> set cats. p \<in> set (types_of_category c)) then p else d)"
  by (induction cats) auto

lemma registered_iff: "registered b \<longleftrightarrow> dict_get MANAGERS b \<noteq> None"
  by (simp add: registered_def dict_has_iff)

lemma resolve_no_override: "resolve_package_manager h w n A None = A"
  by (simp add: resolve_package_manager_def)

lemma resolve_override:
  "resolve_package_manager h w n A (Some B) =
     (if registered B \<and> backend_available h w B \<and> in_active_category h B then B else A)"
  by (auto simp: resolve_package_manager_def resolve_scan_eq registered_iff
        backend_available_def in_active_category_def dict_get_def MANAGERS_def
      split: option.splits)

lemma resolve_entries_get:
  "dict_get (resolve_entries h w A es r) t =
     (let new = names_resolved_to h w t A es
      in if new = [] then dict_get r t
         else Some ((case dict_get r t of Some l \<Rightarrow> l | None \<Rightarrow> []) @ new))"
proof (induction es arbitrary: r)
  case Nil
  show ?case by (simp add: names_resolved_to_def)
next
  case (Cons e es)
  show ?case
    by (simp add: Cons.IH Let_def split_beta dict_get_dict_set dict_has_iff resolved_type_def
          names_resolved_to_def split: option.splits)
qed

lemma resolve_scenario:
  "resolve_all_packages h w [(''conda'', [''python'', ''tmux:brew''])] =
     (if backend_available h w ''brew'' \<and> in_active_category h ''brew''
      then [(''conda'', [''python'']), (''brew'', [''tmux''])]
      else [(''conda'', [''python'', ''tmux''])])"
  by (simp add: resolve_all_packages_def parse_package_entry_def resolve_override
        resolve_no_override dict_has_def dict_get_def registered_def MANAGERS_def Let_def)

text \<open>
  C1. An entry with no override resolves to its declaring backend \<open>A\<close>. An entry with
  override \<open>B\<close> resolves to \<open>B\<close> when \<open>B\<close> is a key of the registry, its manager is
  available and an active category lists it, and to \<open>A\<close> in every other case; so for
  \<open>B\<close> different from \<open>A\<close> the result is \<open>B\<close> exactly under the three conditions (for
  \<open>B = A\<close> both cases give the same identifier). A section's entries land, in order and
  stripped of the override, in the list of the backend each resolves to. The manifest
  \<open>{conda: ["python", "tmux:brew"]}\<close> resolves to \<open>{conda: ["python"], brew: ["tmux"]}\<close>
  when brew is available and in an active category, and to
  \<open>{conda: ["python", "tmux"]}\<close> otherwise.
\<close>

theorem resolution_follows_override_iff_usable:
  "resolve_package_manager h w name A None = A
   \<and> resolve_package_manager h w name A (Some B) =
       (if registered B \<and> backend_available h w B \<and> in_active_category h B then B else A)
   \<and> (A \<noteq> B \<longrightarrow>
        (resolve_package_manager h w name A (Some B) = B
           \<longleftrightarrow> registered B \<and> backend_available h w B \<and> in_active_category h B))
   \<and> (A \<noteq> ''custom'' \<longrightarrow>
        dict_get (resolve_all_packages h w [(A, entries)]) t =
          (if names_resolved_to h w t A entries = [] then None
           else Some (names_resolved_to h w t A entries)))
   \<and> resolve_all_packages h w [(''conda'', [''python'', ''tmux:brew''])] =
       (if registered ''brew'' \<and> backend_available h w ''brew'' \<and> in_active_category h ''brew''
        then [(''conda'', [''python'']), (''brew'', [''tmux''])]
        else [(''conda'', [''python'', ''tmux''])])"
proof -
  have sect: "dict_get (resolve_all_packages h w [(A, entries)]) t =
        (if names_resolved_to h w t A entries = [] then None
         else Some (names_resolved_to h w t A entries))" if "A \<noteq> ''custom''"
  proof (cases "entries = []")
    case True
    with that show ?thesis
      by (simp add: resolve_all_packages_def names_resolved_to_def dict_get_def)
  next
    case False
    with that show ?thesis
      by (simp add: resolve_all_packages_def resolve_entries_get Let_def)
        (simp add: dict_get_def)
  qed
  have reg: "registered ''brew''"
    by (simp add: registered_def dict_has_def MANAGERS_def)
  show ?thesis
    using sect reg
    by (simp add: resolve_no_override resolve_override resolve_scenario)
qed

theorem resolution_follows_override_iff_usable_witness:
  "''conda'' \<noteq> ''brew''
   \<and> registered ''brew'' \<and> backend_available mac_with_brew 0 ''brew''
   \<and> in_active_category mac_with_brew ''brew''
   \<and> resolve_package_manager mac_with_brew 0 ''tmux'' ''conda'' (Some ''brew'') = ''brew''
   \<and> dict_get (resolve_all_packages mac_with_brew 0 [(''conda'', [''python'', ''tmux:brew''])])
        ''brew'' = Some [''tmux'']"
proof -
  have c: "registered ''brew'' \<and> backend_available mac_with_brew 0 ''brew''
           \<and> in_active_category mac_with_brew ''brew''"
    by (simp add: registered_def backend_available_def in_active_category_def dict_has_def
          dict_get_def MANAGERS_def is_available_def mac_with_brew_def machine_def
          get_active_categories_def CATEGORY_ORDER_def CATEGORIES_def category_active_def
          types_of_category_def is_wsl_def)
  have n: "names_resolved_to mac_with_brew 0 ''brew'' ''conda'' [''python'', ''tmux:brew'']
             = [''tmux'']"
    using c
    by (simp add: names_resolved_to_def resolved_type_def parse_package_entry_def
          resolve_override resolve_no_override)
  from resolution_follows_override_iff_usable
         [of mac_with_brew 0 "''tmux''" "''conda''" "''brew''" "[''python'', ''tmux:brew'']"
             "''brew''"]
  show ?thesis using c n by (simp add: dict_get_def)
qed

section \<open>Adding to and removing from the raw manifest\<close>

lemma dict_set_same: "dict_get d k = Some v \<Longrightarrow> dict_set k v d = d"
  by (induction d) (auto simp: dict_get_def)

lemma category_of_custom: "get_category_for_type t = Some ''custom'' \<longleftrightarrow> t = ''custom''"
  by (simp add: get_category_for_type_def CATEGORIES_def)

text \<open>
  Adding a name that a custom entry already carries (as a string or as the \<open>name\<close> of a
  mapping) changes nothing; adding to a standard list a name that is there as that very
  string changes nothing.
\<close>

lemma add_custom_already_present:
  "rd_custom raw = Some l \<Longrightarrow> list_ex (\<lambda>e. fst (parse_custom_entry e) = Some name) l \<Longrightarrow>
   update_raw_manifest raw ''custom'' name Add = raw"
  by (simp add: update_raw_manifest_def get_category_for_type_def CATEGORIES_def)

lemma add_standard_already_present:
  "get_category_for_type t = Some c \<Longrightarrow> c \<noteq> ''custom'' \<Longrightarrow>
   dict_get (rd_categories raw) c = Some cd \<Longrightarrow> dict_get cd t = Some l \<Longrightarrow>
   EStr name \<in> set l \<Longrightarrow>
   update_raw_manifest raw t name Add = raw"
  by (simp add: update_raw_manifest_def dict_has_iff dict_set_same)

text \<open>
  C3. Removing the only entry of \<open>general.conda\<close> from the manifest
  \<open>{general: {conda: ["python"], rust: ["ripgrep"]}, mac: {brew: ["tmux"]}, custom: ["fisher"]}\<close>:
  the \<open>conda\<close> key stays, with an empty list; the claim says the key is deleted. The
  sibling key, the other category and the custom list are unchanged.
\<close>

theorem remove_sole_entry_leaves_empty_list:
  "update_raw_manifest
     \<lparr>rd_categories =
        [(''general'', [(''conda'', [EStr ''python'']), (''rust'', [EStr ''ripgrep''])]),
         (''mac'', [(''brew'', [EStr ''tmux''])])],
      rd_custom = Some [EStr ''fisher'']\<rparr>
     ''conda'' ''python'' Remove
   = \<lparr>rd_categories =
        [(''general'', [(''conda'', []), (''rust'', [EStr ''ripgrep''])]),
         (''mac'', [(''brew'', [EStr ''tmux''])])],
      rd_custom = Some [EStr ''fisher'']\<rparr>"
  by (simp add: update_raw_manifest_def get_category_for_type_def CATEGORIES_def dict_has_iff
        dict_get_def entry_pkg_name_def parse_package_entry_def Let_def)

text \<open>
  C8. Adding \<open>tmux\<close> to \<open>general.conda\<close> when the list holds \<open>"tmux:brew"\<close>: the test
  \<open>name not in pkg_list\<close> compares whole strings, so \<open>"tmux"\<close> is appended and the list
  then holds the parsed name \<open>tmux\<close> twice; the claim says the list is unchanged.
\<close>

theorem add_beside_override_entry_appends:
  "update_raw_manifest
     \<lparr>rd_categories = [(''general'', [(''conda'', [EStr ''tmux:brew''])])], rd_custom = None\<rparr>
     ''conda'' ''tmux'' Add
   = \<lparr>rd_categories = [(''general'', [(''conda'', [EStr ''tmux:brew'', EStr ''tmux''])])],
      rd_custom = None\<rparr>
   \<and> map entry_pkg_name [EStr ''tmux:brew'', EStr ''tmux''] = [Some ''tmux'', Some ''tmux'']"
  by (simp add: update_raw_manifest_def get_category_for_type_def CATEGORIES_def dict_has_iff
        dict_get_def entry_pkg_name_def parse_package_entry_def Let_def)

section \<open>Flattening\<close>

lemma collect_names_eq: "collect_names h es acc = acc @ surviving_names h es"
  by (induction es arbitrary: acc) (auto simp: surviving_names_def split_beta)

lemma flatten_types_get:
  "dict_get (flatten_types h cd ts fl) t =
     (if t \<in> set ts
      then (case dict_get cd t of
              None \<Rightarrow> dict_get fl t
            | Some es \<Rightarrow> if surviving_names h es = [] then dict_get fl t
                         else Some (surviving_names h es))
      else dict_get fl t)"
  by (induction ts arbitrary: fl)
     (auto simp: collect_names_eq dict_get_dict_set Let_def split: option.splits)

lemma active_cats:
  "get_active_categories h =
     (if sys_platform h = ''darwin'' then [''mac''] else [])
     @ (if is_wsl h \<or> sys_platform h = ''wsl'' then [''wsl''] else [])
     @ [''general'', ''custom'']"
  by (auto simp: get_active_categories_def CATEGORY_ORDER_def CATEGORIES_def dict_get_def
        category_active_def)

lemma types_of_cats:
  "types_of_category ''mac'' = [''brew'', ''cask'', ''mas'']"
  "types_of_category ''wsl'' = [''winget'']"
  "types_of_category ''general'' = [''conda'', ''python'', ''rust'', ''bun'']"
  by (simp_all add: types_of_category_def CATEGORIES_def dict_get_def)

lemma category_of_type:
  "get_category_for_type t =
     (if t \<in> {''brew'', ''cask'', ''mas''} then Some ''mac''
      else if t = ''winget'' then Some ''wsl''
      else if t \<in> {''conda'', ''python'', ''rust'', ''bun''} then Some ''general''
      else if t = ''custom'' then Some ''custom'' else None)"
  by (simp add: get_category_for_type_def CATEGORIES_def)


lemma dict_get_Nil: "dict_get [] k = None"
  by (simp add: dict_get_def)

lemma flatten_categories_step:
  "\<exists>fl'. flatten_categories h raw (c # cats) fl = flatten_categories h raw cats fl'
         \<and> (\<forall>t. dict_get fl' t =
                  (case contribution h raw c t of Some v \<Rightarrow> Some v | None \<Rightarrow> dict_get fl t))"
proof (cases "c = ''custom''")
  case True
  let ?fl = "case rd_custom raw of
               None \<Rightarrow> fl
             | Some es \<Rightarrow> if surviving_names h es \<noteq> []
                          then dict_set ''custom'' (surviving_names h es) fl else fl"
  have "flatten_categories h raw (c # cats) fl = flatten_categories h raw cats ?fl"
    using True by (simp add: collect_names_eq split: option.splits)
  moreover have "\<forall>t. dict_get ?fl t =
      (case contribution h raw c t of Some v \<Rightarrow> Some v | None \<Rightarrow> dict_get fl t)"
    using True
    by (simp add: contribution_def nonempty_names_def dict_get_dict_set split: option.splits)
  ultimately show ?thesis by blast
next
  case False
  let ?cd = "case dict_get (rd_categories raw) c of Some d \<Rightarrow> d | None \<Rightarrow> []"
  let ?fl = "flatten_types h ?cd (types_of_category c) fl"
  have "flatten_categories h raw (c # cats) fl = flatten_categories h raw cats ?fl"
    using False by simp
  moreover have "\<forall>t. dict_get ?fl t =
      (case contribution h raw c t of Some v \<Rightarrow> Some v | None \<Rightarrow> dict_get fl t)"
    using False
    by (simp add: contribution_def nonempty_names_def flatten_types_get dict_get_Nil
          split: option.splits)
  ultimately show ?thesis by blast
qed

lemma flatten_categories_get:
  "dict_get (flatten_categories h raw cats fl) t =
     foldl (\<lambda>acc c. case contribution h raw c t of Some v \<Rightarrow> Some v | None \<Rightarrow> acc)
       (dict_get fl t) cats"
proof (induction cats arbitrary: fl)
  case Nil
  show ?case by simp
next
  case (Cons c cats)
  obtain fl' where
    1: "flatten_categories h raw (c # cats) fl = flatten_categories h raw cats fl'" and
    2: "\<And>t. dict_get fl' t =
               (case contribution h raw c t of Some v \<Rightarrow> Some v | None \<Rightarrow> dict_get fl t)"
    using flatten_categories_step [of h raw c cats fl] by blast
  show ?case
    unfolding 1 Cons.IH [of fl'] 2 by simp
qed

lemma contribution_other:
  "get_category_for_type t \<noteq> Some c \<Longrightarrow> contribution h raw c t = None"
  by (auto simp: contribution_def category_of_type types_of_category_def CATEGORIES_def dict_get_def
       split: if_splits)

lemma contribution_own:
  "get_category_for_type t = Some c \<Longrightarrow>
   contribution h raw c t = nonempty_names h (declared_entries raw t)"
  by (auto simp: contribution_def declared_entries_def category_of_type types_of_cats
        types_of_category_def CATEGORIES_def dict_get_def split: if_splits)

lemma flatten_get:
  "dict_get (flatten h raw) t =
     (if type_active h t then nonempty_names h (declared_entries raw t) else None)"
proof (cases "get_category_for_type t")
  case None
  then have "\<And>c. contribution h raw c t = None"
    by (simp add: contribution_other)
  with None show ?thesis
    by (simp add: flatten_def flatten_categories_get active_cats type_active_def dict_get_Nil)
next
  case (Some c)
  then have own: "contribution h raw c t = nonempty_names h (declared_entries raw t)"
    by (rule contribution_own)
  have other: "\<And>c'. c' \<noteq> c \<Longrightarrow> contribution h raw c' t = None"
    using Some by (simp add: contribution_other)
  have c: "c \<in> {''mac'', ''wsl'', ''general'', ''custom''}"
    using Some by (auto simp: category_of_type split: if_splits)
  then consider "c = ''mac''" | "c = ''wsl''" | "c = ''general''" | "c = ''custom''" by auto
  then show ?thesis
  proof cases
    case 1
    with own other [of "''wsl''"] other [of "''general''"] other [of "''custom''"] Some
    show ?thesis
      by (simp add: flatten_def flatten_categories_get active_cats type_active_def dict_get_Nil
            split: option.splits)
  next
    case 2
    with own other [of "''mac''"] other [of "''general''"] other [of "''custom''"] Some
    show ?thesis
      by (simp add: flatten_def flatten_categories_get active_cats type_active_def dict_get_Nil
            split: option.splits)
  next
    case 3
    with own other [of "''mac''"] other [of "''wsl''"] other [of "''custom''"] Some
    show ?thesis
      by (simp add: flatten_def flatten_categories_get active_cats type_active_def dict_get_Nil
            split: option.splits)
  next
    case 4
    with own other [of "''mac''"] other [of "''wsl''"] other [of "''general''"] Some
    show ?thesis
      by (simp add: flatten_def flatten_categories_get active_cats type_active_def dict_get_Nil
            split: option.splits)
  qed
qed

lemma dict_set_key: "(a, b) \<in> set (dict_set k v d) \<Longrightarrow> a = k \<or> a \<in> fst ` set d"
  by (induction d) (force split: if_splits)+

lemma distinct_dict_set: "distinct (map fst d) \<Longrightarrow> distinct (map fst (dict_set k v d))"
  by (induction d) (auto dest: dict_set_key)

lemma distinct_flatten_types:
  "distinct (map fst fl) \<Longrightarrow> distinct (map fst (flatten_types h cd ts fl))"
  by (induction ts arbitrary: fl) (auto simp: distinct_dict_set Let_def split: option.splits)

lemma distinct_flatten_categories:
  "distinct (map fst fl) \<Longrightarrow> distinct (map fst (flatten_categories h raw cats fl))"
  by (induction cats arbitrary: fl)
     (auto simp: distinct_dict_set distinct_flatten_types Let_def split: option.splits)

lemma distinct_flatten: "distinct (map fst (flatten h raw))"
  by (simp add: flatten_def distinct_flatten_categories)

lemma distinct_surviving:
  assumes "distinct (map (\<lambda>e. fst (parse_custom_entry e)) es)"
  shows "distinct (surviving_names h es)"
proof -
  let ?P = "\<lambda>e. str_truthy (fst (parse_custom_entry e))
                 \<and> platform_matches h (snd (parse_custom_entry e))"
  have d: "distinct (map (\<lambda>e. fst (parse_custom_entry e)) (filter ?P es))"
    using assms by (rule distinct_map_filter)
  have inj: "inj_on the (set (map (\<lambda>e. fst (parse_custom_entry e)) (filter ?P es)))"
    by (auto simp: inj_on_def str_truthy_def split: option.splits)
  have "distinct (map the (map (\<lambda>e. fst (parse_custom_entry e)) (filter ?P es)))"
    using d inj by (simp only: distinct_map)
  then show ?thesis
    by (simp add: surviving_names_def comp_def)
qed

lemma linux_active: "get_active_categories linux_plain = [''general'', ''custom'']"
  by (simp add: active_cats linux_plain_def machine_def is_wsl_def)

text \<open>
  C7, as the code has it. For a backend of an active category the flattened dictionary
  holds the names of the surviving entries of its raw list, in declaration order and each
  as often as it is declared (no key when none survives); a backend identifier is a key
  at most once. A flattened list has no name twice when the raw list declares no name
  twice. Nothing removes duplicates.
\<close>

theorem flatten_lists_surviving_names_in_order:
  "dict_get (flatten h raw) t =
     (if type_active h t then nonempty_names h (declared_entries raw t) else None)
   \<and> distinct (map fst (flatten h raw))
   \<and> (\<forall>names. dict_get (flatten h raw) t = Some names \<longrightarrow>
         (\<exists>es. declared_entries raw t = Some es \<and> names = surviving_names h es
               \<and> (distinct (map (\<lambda>e. fst (parse_custom_entry e)) es) \<longrightarrow> distinct names)))"
proof -
  have 1: "dict_get (flatten h raw) t =
     (if type_active h t then nonempty_names h (declared_entries raw t) else None)"
    by (rule flatten_get)
  have 2: "distinct (map fst (flatten h raw))"
    by (rule distinct_flatten)
  have 3: "\<exists>es. declared_entries raw t = Some es \<and> names = surviving_names h es
               \<and> (distinct (map (\<lambda>e. fst (parse_custom_entry e)) es) \<longrightarrow> distinct names)"
    if "dict_get (flatten h raw) t = Some names" for names
  proof -
    from that 1 have b: "nonempty_names h (declared_entries raw t) = Some names"
      by (simp split: if_splits)
    then obtain es where es: "declared_entries raw t = Some es" "names = surviving_names h es"
      by (auto simp: nonempty_names_def split: option.splits if_splits)
    with distinct_surviving [of es h] show ?thesis by simp
  qed
  from 1 2 3 show ?thesis by blast
qed

theorem flatten_lists_surviving_names_in_order_witness:
  "dict_get (flatten linux_plain sample_manifest) ''conda'' = Some [''python'', ''tmux:brew'']
   \<and> declared_entries sample_manifest ''conda'' = Some [EStr ''python'', EStr ''tmux:brew'']
   \<and> distinct (map (\<lambda>e. fst (parse_custom_entry e)) [EStr ''python'', EStr ''tmux:brew''])
   \<and> distinct [''python'', ''tmux:brew'']"
proof -
  have a: "type_active linux_plain ''conda''"
    by (simp add: type_active_def linux_active category_of_type)
  have d: "declared_entries sample_manifest ''conda'' = Some [EStr ''python'', EStr ''tmux:brew'']"
    by (simp add: declared_entries_def category_of_type dict_get_def sample_manifest_def)
  have s: "surviving_names linux_plain [EStr ''python'', EStr ''tmux:brew'']
             = [''python'', ''tmux:brew'']"
    by (simp add: surviving_names_def parse_custom_entry_def str_truthy_def
          platform_matches_def platforms_truthy_def)
  have 1: "dict_get (flatten linux_plain sample_manifest) ''conda''
             = Some [''python'', ''tmux:brew'']"
    using flatten_lists_surviving_names_in_order
            [of linux_plain sample_manifest "''conda''", THEN conjunct1]
    by (simp only: a d s nonempty_names_def if_True option.case) simp
  have 2: "distinct (map (\<lambda>e. fst (parse_custom_entry e)) [EStr ''python'', EStr ''tmux:brew''])"
    by (simp add: parse_custom_entry_def)
  from flatten_lists_surviving_names_in_order
         [of linux_plain sample_manifest "''conda''", THEN conjunct2, THEN conjunct2,
          rule_format, OF 1]
  obtain es where es: "declared_entries sample_manifest ''conda'' = Some es"
    and imp: "distinct (map (\<lambda>e. fst (parse_custom_entry e)) es)
                \<longrightarrow> distinct [''python'', ''tmux:brew'']"
    by blast
  from es d have "es = [EStr ''python'', EStr ''tmux:brew'']" by simp
  with imp 2 have 3: "distinct [''python'', ''tmux:brew'']" by blast
  from 1 d 2 3 show ?thesis by blast
qed

text \<open>
  C7 as stated fails: a name declared twice in \<open>general.conda\<close> is twice in the flattened
  list.
\<close>

theorem flatten_keeps_duplicate_names:
  "flatten linux_plain
     \<lparr>rd_categories = [(''general'', [(''conda'', [EStr ''git'', EStr ''git''])])],
      rd_custom = None\<rparr> = [(''conda'', [''git'', ''git''])]
   \<and> \<not> distinct [''git'', ''git'']"
  by (simp add: flatten_def linux_active types_of_cats dict_get_def
       parse_custom_entry_def str_truthy_def platform_matches_def platforms_truthy_def)

section \<open>Loading and saving\<close>



section \<open>Dry runs\<close>

lemma quiet_refl: "quiet s s"
  by (simp add: quiet_def)

lemma quiet_trans: "quiet s s1 \<Longrightarrow> quiet s1 s2 \<Longrightarrow> quiet s s2"
  by (simp add: quiet_def)

lemma quiet_print: "quiet s (print m s)"
  by (simp add: quiet_def print_def)

lemma quiet_print_after: "quiet s s1 \<Longrightarrow> quiet s (print m s1)"
  by (simp add: quiet_def print_def)

lemma run_command_dry:
  "run_command h cmd True check s = (ok_result, print (WouldRun (join_with '' '' cmd)) s)"
  by (simp add: run_command_def)

lemma install_each_dry:
  "fst (install_each h cmd_of pkgs True s) = ok_result
   \<and> quiet s (snd (install_each h cmd_of pkgs True s))"
proof (induction pkgs arbitrary: s)
  case Nil
  show ?case by (simp add: quiet_refl)
next
  case (Cons p ps)
  let ?s1 = "print (WouldRun (join_with '' '' (cmd_of p))) s"
  have step: "install_each h cmd_of (p # ps) True s = install_each h cmd_of ps True ?s1"
    by (simp add: run_command_dry ok_result_def)
  have "quiet s ?s1" by (rule quiet_print)
  moreover have "quiet ?s1 (snd (install_each h cmd_of ps True ?s1))"
    using Cons.IH [of ?s1] by simp
  ultimately have "quiet s (snd (install_each h cmd_of ps True ?s1))"
    by (rule quiet_trans)
  with Cons.IH [of ?s1] show ?case
    unfolding step by simp
qed

lemma install_all_dry:
  "list_all success results \<Longrightarrow>
   list_all success (fst (install_all h cmd_of pkgs True results s))
   \<and> quiet s (snd (install_all h cmd_of pkgs True results s))"
proof (induction pkgs arbitrary: s results)
  case Nil
  then show ?case by (simp add: quiet_refl)
next
  case (Cons p ps)
  let ?s1 = "print (WouldRun (join_with '' '' (cmd_of p))) s"
  have step: "install_all h cmd_of (p # ps) True results s
                = install_all h cmd_of ps True (results @ [ok_result]) ?s1"
    by (simp add: run_command_dry)
  from Cons.prems have ok: "list_all success (results @ [ok_result])"
    by (simp add: ok_result_def)
  have "quiet s ?s1" by (rule quiet_print)
  moreover have "quiet ?s1 (snd (install_all h cmd_of ps True (results @ [ok_result]) ?s1))"
    using Cons.IH [OF ok, of ?s1] by simp
  ultimately have "quiet s (snd (install_all h cmd_of ps True (results @ [ok_result]) ?s1))"
    by (rule quiet_trans)
  with Cons.IH [OF ok, of ?s1] show ?case
    unfolding step by simp
qed

lemma manager_install_dry:
  "success (fst (manager_install h m pkgs True s))
   \<and> quiet s (snd (manager_install h m pkgs True s))"
proof (cases "mgr_class m")
  case WingetManager
  have "list_all success ([] :: CommandResult list)" by simp
  from install_all_dry [OF this] WingetManager show ?thesis
    by (simp add: manager_install_def split_beta)
next
  case PythonManager
  with install_each_dry [of h "\<lambda>pkg. [''uv'', ''tool'', ''install'', pkg, ''--force'']" pkgs s]
  show ?thesis
    by (simp add: manager_install_def ok_result_def)
next
  case MasManager
  with install_each_dry [of h "\<lambda>app_id. [''mas'', ''install'', app_id]" pkgs s]
  show ?thesis
    by (simp add: manager_install_def ok_result_def)
next
  case BunManager
  with install_each_dry [of h "\<lambda>pkg. [''bun'', ''add'', ''-g'', pkg]" pkgs s]
  show ?thesis
    by (simp add: manager_install_def ok_result_def)
qed (simp_all add: manager_install_def run_command_dry ok_result_def quiet_print)

lemma quiet_manager_install_after:
  "quiet s s1 \<Longrightarrow> quiet s (snd (manager_install h m pkgs True s1))"
  using manager_install_dry [of h m pkgs s1] by (blast intro: quiet_trans)

lemma custom_install_dry:
  "success (fst (custom_install h cfg True s)) \<and> quiet s (snd (custom_install h cfg True s))"
  by (simp add: custom_install_def run_script_def ok_result_def Let_def quiet_print_after
        quiet_print)

lemma quiet_custom_install_after:
  "quiet s s1 \<Longrightarrow> quiet s (snd (custom_install h cfg True s1))"
  using custom_install_dry [of h cfg s1] by (blast intro: quiet_trans)

lemmas quiet_intros =
  quiet_refl quiet_print_after quiet_manager_install_after quiet_custom_install_after

lemma install_standard_dry:
  "quiet s (final_state (install_standard h data raw t name True s))"
  by (simp add: install_standard_def get_manager_def final_state_def split_beta Let_def
        manager_install_dry quiet_intros split: option.splits)

lemma install_custom_dry:
  "quiet s (final_state (install_custom h data raw name True s))"
  by (simp add: install_custom_def final_state_def split_beta Let_def
        custom_install_dry quiet_intros split: option.splits)

lemma install_dry:
  "quiet s (final_state (install h t name True s))"
proof (cases "manifest_file s")
  case None
  then show ?thesis by (simp add: install_def load_manifest_def final_state_def quiet_print)
next
  case (Some doc)
  have q: "quiet s (print DryRunPanel s)" by (rule quiet_print)
  show ?thesis
  proof (cases "t = ''custom''")
    case True
    with Some quiet_trans [OF q install_custom_dry] show ?thesis
      by (simp add: install_def load_manifest_def Let_def)
  next
    case False
    with Some quiet_trans [OF q install_standard_dry] show ?thesis
      by (simp add: install_def load_manifest_def Let_def)
  qed
qed

text \<open>
  C9. With \<open>dry_run\<close> set, \<open>_run_command\<close> prints the command line, returns success and
  does nothing else: no process is started (the shell is not even looked up) and the
  machine is as before. Every manager's \<open>install\<close> then reports success. The \<open>install\<close>
  command with \<open>dry_run\<close> set, whatever it installs and however it ends, leaves the
  manifest file as it was and never writes it.
\<close>

theorem dry_run_only_prints_and_install_keeps_manifest:
  "run_command h cmd True check s = (ok_result, print (WouldRun (join_with '' '' cmd)) s)
   \<and> success (fst (run_command h cmd True check s))
   \<and> spawned (snd (run_command h cmd True check s)) = spawned s
   \<and> world (snd (run_command h cmd True check s)) = world s
   \<and> console (snd (run_command h cmd True check s))
       = console s @ [WouldRun (join_with '' '' cmd)]
   \<and> success (fst (manager_install h m packages True s))
   \<and> manifest_file (final_state (install h pkg_type name True s)) = manifest_file s
   \<and> writes (final_state (install h pkg_type name True s)) = writes s"
  using install_dry [of s h pkg_type name] manager_install_dry [of h m packages s]
  by (simp add: run_command_dry quiet_def ok_result_def print_def)

section \<open>The custom branch of init\<close>
















section \<open>The standard branch of init and the loop over the package types\<close>

lemma get_manager_ok:
  "dict_get MANAGERS t = Some m \<Longrightarrow> is_available h (world s) m \<Longrightarrow>
   get_manager h t s = Inr (m, s)"
  by (simp add: get_manager_def)

lemma get_manager_unavailable:
  "dict_get MANAGERS t = Some m \<Longrightarrow> \<not> is_available h (world s) m \<Longrightarrow>
   get_manager h t s = Inl (SystemExit 1, print (ToolNotFound (mgr_tool m)) s)"
  by (simp add: get_manager_def)

lemma get_manager_unknown:
  "dict_get MANAGERS t = None \<Longrightarrow>
   get_manager h t s = Inl (SystemExit 1, print (UnknownType t) s)"
  by (simp add: get_manager_def)

lemma missing_none:
  "set packages \<subseteq> installed \<Longrightarrow> missing_packages m installed packages = []"
  by (auto simp: missing_packages_def filter_empty_conv)

lemma init_standard_satisfied:
  assumes "dict_get MANAGERS t = Some m" "is_available h (world s) m"
    "set packages \<subseteq> get_installed_names h (world s) m"
  shows "init_standard h t packages dry_run c s
           = Inr (c, print (AllInstalled t (length packages)) s)"
  using assms by (simp add: init_standard_def get_manager_ok missing_none)

lemma init_type_standard:
  "t \<noteq> ''custom'' \<Longrightarrow> dict_get data t = Some packages \<Longrightarrow> packages \<noteq> [] \<Longrightarrow>
   init_type h data dry_run t c s = init_standard h t packages dry_run c s"
  by (simp add: init_type_def)


lemma init_standard_unavailable:
  assumes "dict_get MANAGERS t = Some m" "\<not> is_available h (world s) m"
  shows "init_standard h t packages dry_run c s
           = Inl (SystemExit 1, print (ToolNotFound (mgr_tool m)) s)"
  using assms by (simp add: init_standard_def get_manager_unavailable)


lemma init_type_empty:
  "(case dict_get data t of Some l \<Rightarrow> l | None \<Rightarrow> []) = [] \<Longrightarrow>
   init_type h data dry_run t c s = Inr (c, s)"
  by (simp add: init_type_def)

lemma init_type_satisfied:
  assumes "already_satisfied h data (world s) t"
  shows "init_type h data dry_run t c s =
           Inr (c, s\<lparr>console := console s @ reports data [t]\<rparr>)"
proof (cases "(case dict_get data t of Some l \<Rightarrow> l | None \<Rightarrow> []) = []")
  case True
  then show ?thesis by (simp add: init_type_empty reports_def)
next
  case False
  then obtain packages where p: "dict_get data t = Some packages" "packages \<noteq> []"
    by (auto split: option.splits)
  with assms obtain m where m: "t \<noteq> ''custom''" "dict_get MANAGERS t = Some m"
    "is_available h (world s) m" "set packages \<subseteq> get_installed_names h (world s) m"
    by (auto simp: already_satisfied_def split: option.splits)
  from p m show ?thesis
    by (simp add: init_type_standard init_standard_satisfied reports_def print_def)
qed

lemma reports_Cons: "reports data (t # ts) = reports data [t] @ reports data ts"
  by (simp add: reports_def)

lemma init_loop_satisfied:
  "\<forall>t \<in> set types. already_satisfied h data (world s) t \<Longrightarrow>
   init_loop h data dry_run types c s = Inr (c, s\<lparr>console := console s @ reports data types\<rparr>)"
proof (induction types arbitrary: s)
  case Nil
  show ?case by (simp add: reports_def)
next
  case (Cons t ts)
  let ?s1 = "s\<lparr>console := console s @ reports data [t]\<rparr>"
  from Cons.prems have 1: "init_type h data dry_run t c s = Inr (c, ?s1)"
    by (simp add: init_type_satisfied)
  from Cons.prems have "\<forall>t \<in> set ts. already_satisfied h data (world ?s1) t" by simp
  from Cons.IH [OF this] 1 show ?case
    by (simp add: reports_Cons [of data t ts])
qed




text \<open>
  C2. When \<open>init\<close> processes a standard package type that has packages, whose manager
  is registered and available and whose installed-name set contains every package, the
  only effect is the line "all N packages installed": no install command is run or
  echoed (\<open>manager.install\<close> is not called), the counters and the machine are as before.
  A whole loop over types that are all satisfied in this way only prints these lines.
\<close>

theorem satisfied_backend_gets_no_install:
  "(t \<noteq> ''custom'' \<and> dict_get data t = Some packages \<and> packages \<noteq> []
      \<and> dict_get MANAGERS t = Some m \<and> is_available h (world s) m
      \<and> set packages \<subseteq> get_installed_names h (world s) m
    \<longrightarrow> init_type h data dry_run t c s
          = Inr (c, s\<lparr>console := console s @ [AllInstalled t (length packages)]\<rparr>))
   \<and> ((\<forall>t \<in> set types. already_satisfied h data (world s) t)
       \<longrightarrow> init_loop h data dry_run types c s
             = Inr (c, s\<lparr>console := console s @ reports data types\<rparr>))"
  by (simp add: init_type_standard init_standard_satisfied print_def init_loop_satisfied)


text \<open>
  C6, as the code has it. A standard package type that has packages and whose manager
  is not available ends the command there: the error naming the missing tool is printed,
  \<open>SystemExit(1)\<close> is raised, nothing is installed for it and no later type is
  processed. (A type with no packages is skipped before the manager is looked up.)
\<close>

theorem unavailable_backend_ends_the_run:
  "(t \<noteq> ''custom'' \<and> dict_get data t = Some packages \<and> packages \<noteq> []
      \<and> dict_get MANAGERS t = Some m \<and> \<not> is_available h (world s) m
    \<longrightarrow> init_loop h data dry_run (t # rest) c s
          = Inl (SystemExit 1, print (ToolNotFound (mgr_tool m)) s))
   \<and> ((case dict_get data t of Some l \<Rightarrow> l | None \<Rightarrow> []) = []
       \<longrightarrow> init_loop h data dry_run (t # rest) c s = init_loop h data dry_run rest c s)"
  by (simp add: init_type_standard init_standard_unavailable init_type_empty)

section \<open>Runs of init on concrete machines\<close>

lemma managers_conda:
  "dict_get MANAGERS ''conda'' = Some \<lparr>mgr_class = CondaManager, mgr_name = ''conda'', mgr_tool = ''micromamba''\<rparr>"
  by (simp add: dict_get_def MANAGERS_def)

lemma managers_brew:
  "dict_get MANAGERS ''brew'' = Some \<lparr>mgr_class = BrewManager, mgr_name = ''brew'', mgr_tool = ''brew''\<rparr>"
  by (simp add: dict_get_def MANAGERS_def)

text \<open>
  On a Linux machine whose conda environment has python, \<open>init\<close> for
  \<open>{conda: ["python"]}\<close> prints one line and installs nothing.
\<close>

theorem satisfied_backend_gets_no_install_witness:
  "dict_get [(''conda'', [''python''])] ''conda'' = Some [''python'']
   \<and> is_available linux_with_python 0
        \<lparr>mgr_class = CondaManager, mgr_name = ''conda'', mgr_tool = ''micromamba''\<rparr>
   \<and> set [''python''] \<subseteq> get_installed_names linux_with_python 0
        \<lparr>mgr_class = CondaManager, mgr_name = ''conda'', mgr_tool = ''micromamba''\<rparr>
   \<and> init_type linux_with_python [(''conda'', [''python''])] False ''conda'' no_counts (start None)
       = Inr (no_counts, (start None)\<lparr>console := [AllInstalled ''conda'' 1]\<rparr>)
   \<and> init_loop linux_with_python [(''conda'', [''python''])] False [''conda''] no_counts (start None)
       = Inr (no_counts, (start None)\<lparr>console := [AllInstalled ''conda'' 1]\<rparr>)"
proof -
  let ?m = "\<lparr>mgr_class = CondaManager, mgr_name = ''conda'', mgr_tool = ''micromamba''\<rparr>"
  let ?data = "[(''conda'', [''python''])]"
  have d: "dict_get ?data ''conda'' = Some [''python'']" by (simp add: dict_get_def)
  have a: "is_available linux_with_python 0 ?m"
    by (simp add: is_available_def linux_with_python_def machine_def)
  have i: "set [''python''] \<subseteq> get_installed_names linux_with_python 0 ?m"
    by (simp add: get_installed_names_def linux_with_python_def machine_def)
  have w: "world (start None) = 0" by (simp add: start_def)
  have c: "console (start None) = []" by (simp add: start_def)
  have hyp1: "''conda'' \<noteq> ''custom'' \<and> dict_get ?data ''conda'' = Some [''python'']
      \<and> [''python''] \<noteq> [] \<and> dict_get MANAGERS ''conda'' = Some ?m
      \<and> is_available linux_with_python (world (start None)) ?m
      \<and> set [''python''] \<subseteq> get_installed_names linux_with_python (world (start None)) ?m"
    using d a i w managers_conda by simp
  have sat: "\<forall>t \<in> set [''conda'']. already_satisfied linux_with_python ?data (world (start None)) t"
    using d a i w managers_conda by (simp add: already_satisfied_def)
  have r: "reports ?data [''conda''] = [AllInstalled ''conda'' 1]"
    by (simp add: reports_def dict_get_def)
  note t = satisfied_backend_gets_no_install
             [of "''conda''" ?data "[''python'']" ?m linux_with_python "start None" False no_counts
                 "[''conda'']"]
  have 1: "init_type linux_with_python ?data False ''conda'' no_counts (start None)
       = Inr (no_counts, (start None)\<lparr>console := [AllInstalled ''conda'' 1]\<rparr>)"
    using t [THEN conjunct1, rule_format, OF hyp1] c by simp
  have 2: "init_loop linux_with_python ?data False [''conda''] no_counts (start None)
       = Inr (no_counts, (start None)\<lparr>console := [AllInstalled ''conda'' 1]\<rparr>)"
    using t [THEN conjunct2, THEN mp, OF sat] c r by simp
  from d a i 1 2 show ?thesis by blast
qed


text \<open>On a Mac without Homebrew the loop over brew and conda stops at brew.\<close>

theorem unavailable_backend_ends_the_run_witness:
  "dict_get two_backends_resolved ''brew'' = Some [''tmux'']
   \<and> \<not> is_available mac_without_brew 0
          \<lparr>mgr_class = BrewManager, mgr_name = ''brew'', mgr_tool = ''brew''\<rparr>
   \<and> init_loop mac_without_brew two_backends_resolved False [''brew'', ''conda''] no_counts
        (start None)
       = Inl (SystemExit 1, (start None)\<lparr>console := [ToolNotFound ''brew'']\<rparr>)"
proof -
  let ?m = "\<lparr>mgr_class = BrewManager, mgr_name = ''brew'', mgr_tool = ''brew''\<rparr>"
  have d: "dict_get two_backends_resolved ''brew'' = Some [''tmux'']"
    by (simp add: dict_get_def two_backends_resolved_def)
  have a: "\<not> is_available mac_without_brew 0 ?m"
    by (simp add: is_available_def mac_without_brew_def machine_def)
  have hyp: "''brew'' \<noteq> ''custom'' \<and> dict_get two_backends_resolved ''brew'' = Some [''tmux'']
      \<and> [''tmux''] \<noteq> [] \<and> dict_get MANAGERS ''brew'' = Some ?m
      \<and> \<not> is_available mac_without_brew (world (start None)) ?m"
    using d a managers_brew by (simp add: start_def)
  from unavailable_backend_ends_the_run
         [of "''brew''" two_backends_resolved "[''tmux'']" ?m mac_without_brew "start None"
             False "[''conda'']" no_counts, THEN conjunct1, rule_format, OF hyp]
  have "init_loop mac_without_brew two_backends_resolved False [''brew'', ''conda''] no_counts
        (start None)
       = Inl (SystemExit 1, (start None)\<lparr>console := [ToolNotFound ''brew'']\<rparr>)"
    by (simp add: print_def start_def)
  with d a show ?thesis by blast
qed

lemma mac_active: "get_active_categories mac_without_brew = [''mac'', ''general'', ''custom'']"
  by (simp add: active_cats mac_without_brew_def machine_def is_wsl_def)

lemma flat_two: "flatten mac_without_brew two_backends = two_backends_resolved"
  by (simp add: flatten_def mac_active types_of_cats dict_get_def two_backends_def
       two_backends_resolved_def
       parse_custom_entry_def str_truthy_def platform_matches_def platforms_truthy_def)

lemma resolve_two: "resolve_all_packages mac_without_brew w two_backends_resolved = two_backends_resolved"
  by (simp add: resolve_all_packages_def two_backends_resolved_def parse_package_entry_def
        resolve_no_override dict_has_iff dict_get_def Let_def)

lemma reorder_two: "reorder_types [''brew'', ''conda''] = [''brew'', ''conda'']"
  by (simp add: reorder_types_def MANAGER_ORDER_def)

text \<open>
  C6 as stated fails. On a Mac without Homebrew, \<open>init\<close> for the manifest
  \<open>{mac: {brew: ["tmux"]}, general: {conda: ["python"]}}\<close> exits with status 1 at brew:
  conda, whose tool is there and whose package is missing, is never processed and no
  process is started.
\<close>

theorem unavailable_backend_aborts_init:
  "init mac_without_brew None False (start (Some (YMap two_backends)))
     = Inl (SystemExit 1,
            \<lparr>world = 0, manifest_file = Some (YMap two_backends), writes = 0,
             console = [ManifestLine, PackageTypes [''brew'', ''conda''], ToolNotFound ''brew''],
             spawned = []\<rparr>)"
proof -
  have keys: "map fst two_backends_resolved = [''brew'', ''conda'']"
    by (simp add: two_backends_resolved_def)
  have brew: "init_type mac_without_brew two_backends_resolved False ''brew'' c s
              = Inl (SystemExit 1, print (ToolNotFound ''brew'') s)" for c and s :: "nat state"
    by (simp add: init_type_def init_standard_def get_manager_def managers_brew
          two_backends_resolved_def dict_get_def [of "[(''brew'', [''tmux'']), (''conda'', [''python''])]"]
          is_available_def mac_without_brew_def machine_def)
  show ?thesis
    by (simp add: init_def load_manifest_def start_def doc_mapping_def flat_two resolve_two
          str_truthy_def keys reorder_two brew print_def Let_def)
qed

end
